theory Spec2Isabelle
  imports Complex_Main "HOL-Library.Sublist" "HOL-Library.Char_ord" "HOL-Library.List_Lexorder"
begin

section \<open>Python values read from JSON\<close>

text \<open>
  Both programs exchange JSON documents: the exporter receives them from the source
  server and writes them into the bundle, the importer loads them again with
  \<^verbatim>\<open>json.load\<close>. A decoded document is a Python value built from \<^verbatim>\<open>None\<close>,
  booleans, integers, strings, lists and dicts. A dict keeps its keys in insertion
  order and has no duplicate key, so it is an association list whose first
  components are distinct. Numbers with a fraction or an exponent are not represented.
\<close>

datatype json =
    JNull
  | JBool bool
  | JInt int
  | JStr string
  | JArr "json list"
  | JObj "(string \<times> json) list"

type_synonym dict = "(string \<times> json) list"

text \<open>Exceptions, with the text \<^verbatim>\<open>str(e)\<close> gives.\<close>

datatype exn =
    AttributeError string
  | TypeError string
  | ValueError string
  | RuntimeError string
  | OtherError string

fun str_exn :: "exn \<Rightarrow> string" where
  "str_exn (AttributeError m) = m"
| "str_exn (TypeError m) = m"
| "str_exn (ValueError m) = m"
| "str_exn (RuntimeError m) = m"
| "str_exn (OtherError m) = m"

text \<open>Truth value of a Python object, as \<^verbatim>\<open>if x:\<close> and \<^verbatim>\<open>not x\<close> test it.\<close>

fun truthy :: "json \<Rightarrow> bool" where
  "truthy JNull = False"
| "truthy (JBool b) = b"
| "truthy (JInt i) = (i \<noteq> 0)"
| "truthy (JStr s) = (s \<noteq> [])"
| "truthy (JArr xs) = (xs \<noteq> [])"
| "truthy (JObj kvs) = (kvs \<noteq> [])"

fun type_name :: "json \<Rightarrow> string" where
  "type_name JNull = ''NoneType''"
| "type_name (JBool b) = ''bool''"
| "type_name (JInt i) = ''int''"
| "type_name (JStr s) = ''str''"
| "type_name (JArr xs) = ''list''"
| "type_name (JObj kvs) = ''dict''"

definition quoted :: "string \<Rightarrow> string" where
  "quoted s = CHR 0x27 # s @ [CHR 0x27]"

text \<open>\<^verbatim>\<open>d.get(k, default)\<close> on a dict; \<^verbatim>\<open>d.get(k)\<close> is \<open>dict_get d k JNull\<close>.\<close>

definition dict_get :: "dict \<Rightarrow> string \<Rightarrow> json \<Rightarrow> json" where
  "dict_get d k dflt = (case map_of d k of None \<Rightarrow> dflt | Some v \<Rightarrow> v)"

text \<open>\<^verbatim>\<open>x.get(k, default)\<close> on any value: only a dict has the method.\<close>

definition no_attribute :: "json \<Rightarrow> string \<Rightarrow> exn" where
  "no_attribute v a =
     AttributeError (quoted (type_name v) @ '' object has no attribute '' @ quoted a)"

fun py_get :: "json \<Rightarrow> string \<Rightarrow> json \<Rightarrow> exn + json" where
  "py_get (JObj d) k dflt = Inr (dict_get d k dflt)"
| "py_get v k dflt = Inl (no_attribute v ''get'')"

text \<open>
  \<^verbatim>\<open>a == b\<close>: \<^verbatim>\<open>True\<close> and \<^verbatim>\<open>False\<close> are the integers 1 and 0, lists are compared
  element by element, dicts as maps (the order of the keys does not count).
\<close>

fun py_eq :: "json \<Rightarrow> json \<Rightarrow> bool" where
  "py_eq JNull JNull = True"
| "py_eq (JBool a) (JBool b) = (a = b)"
| "py_eq (JBool a) (JInt b) = (of_bool a = b)"
| "py_eq (JInt a) (JBool b) = (a = of_bool b)"
| "py_eq (JInt a) (JInt b) = (a = b)"
| "py_eq (JStr a) (JStr b) = (a = b)"
| "py_eq (JArr a) (JArr b) = list_all2 py_eq a b"
| "py_eq (JObj a) (JObj b) =
     (length a = length b \<and>
      list_all (\<lambda>(k, v). case map_of b k of None \<Rightarrow> False | Some v' \<Rightarrow> py_eq v v') a)"
| "py_eq _ _ = False"

text \<open>Lists and dicts cannot be hashed: they are no dict keys and no set elements.\<close>

fun hashable :: "json \<Rightarrow> bool" where
  "hashable (JArr xs) = False"
| "hashable (JObj d) = False"
| "hashable v = True"

definition unhashable :: "json \<Rightarrow> exn" where
  "unhashable v = TypeError (''unhashable type: '' @ quoted (type_name v))"

text \<open>
  \<^verbatim>\<open>for x in v\<close>: a list gives its elements, a dict its keys, a string its characters;
  nothing else can be iterated.
\<close>

fun py_iter :: "json \<Rightarrow> exn + json list" where
  "py_iter (JArr xs) = Inr xs"
| "py_iter (JObj d) = Inr (map (\<lambda>(k, v). JStr k) d)"
| "py_iter (JStr s) = Inr (map (\<lambda>c. JStr [c]) s)"
| "py_iter v = Inl (TypeError (quoted (type_name v) @ '' object is not iterable''))"

text \<open>
  A dict whose keys are arbitrary hashable values (the result dicts of the importer, the
  documents the exporter builds): \<^verbatim>\<open>d[k] = v\<close>, \<^verbatim>\<open>d.get(k)\<close> and \<^verbatim>\<open>d.pop(k, None)\<close>.
  Keys are found by \<^const>\<open>py_eq\<close>; an unhashable key raises.
\<close>

fun jdict_set :: "(json \<times> 'v) list \<Rightarrow> json \<Rightarrow> 'v \<Rightarrow> (json \<times> 'v) list" where
  "jdict_set [] k v = [(k, v)]"
| "jdict_set ((k', v') # d) k v =
     (if py_eq k' k then (k', v) # d else (k', v') # jdict_set d k v)"

fun jdict_get :: "(json \<times> 'v) list \<Rightarrow> json \<Rightarrow> 'v option" where
  "jdict_get [] k = None"
| "jdict_get ((k', v') # d) k = (if py_eq k' k then Some v' else jdict_get d k)"

fun jdict_pop :: "(json \<times> 'v) list \<Rightarrow> json \<Rightarrow> (json \<times> 'v) list" where
  "jdict_pop [] k = []"
| "jdict_pop ((k', v') # d) k = (if py_eq k' k then d else (k', v') # jdict_pop d k)"

text \<open>\<^verbatim>\<open>d.get(k, default)\<close> on a dict with string keys, for any hashable \<open>k\<close>.\<close>

fun sdict_get :: "(string \<times> 'v) list \<Rightarrow> json \<Rightarrow> 'v option" where
  "sdict_get d (JStr s) = map_of d s"
| "sdict_get d k = None"

text \<open>\<^verbatim>\<open>needle in s\<close> on strings: \<open>needle\<close> occurs in \<open>s\<close> as a contiguous piece.\<close>

fun str_contains :: "string \<Rightarrow> string \<Rightarrow> bool" where
  "str_contains needle [] = (needle = [])"
| "str_contains needle (c # cs) = (prefix needle (c # cs) \<or> str_contains needle cs)"

text \<open>\<^verbatim>\<open>s.endswith(t)\<close> on strings is \<^const>\<open>suffix\<close>, \<^verbatim>\<open>s.startswith(t)\<close> is \<^const>\<open>prefix\<close>.\<close>

section \<open>Importer: bundle and plan\<close>

text \<open>
  The dataclasses \<^verbatim>\<open>Bundle\<close> and \<^verbatim>\<open>ImportPlan\<close> of the importer. The declared
  field types are kept where they fix a shape (\<^verbatim>\<open>Dict[str, str]\<close>); a plain \<^verbatim>\<open>dict\<close>
  is a JSON object with arbitrary values. Room identifiers reach the plan from
  \<^verbatim>\<open>r.get("room_id")\<close> unchecked, so the plan's lists hold JSON values.
\<close>

record Bundle =
  root :: string
  users :: "dict list"
  rooms :: "dict list"
  room_state :: "(string \<times> dict list) list"
  memberships :: "(string \<times> (string \<times> string) list) list"
  aliases :: "(string \<times> string) list"
  metadata :: dict
  devices :: "(string \<times> dict) list option"

record ImportPlan =
  join_rooms :: "json list"
  create_rooms :: "json list"
  create_aliases :: "(string \<times> string) list"

text \<open>\<^verbatim>\<open>d[k] = v\<close> on a dict with string keys: an existing key keeps its place.\<close>

fun sdict_set :: "(string \<times> 'v) list \<Rightarrow> string \<Rightarrow> 'v \<Rightarrow> (string \<times> 'v) list" where
  "sdict_set [] k v = [(k, v)]"
| "sdict_set ((k', v') # d) k v =
     (if k' = k then (k', v) # d else (k', v') # sdict_set d k v)"

text \<open>The first loop of \<^verbatim>\<open>build_plan\<close>, over \<^verbatim>\<open>bundle.rooms\<close>.\<close>

fun plan_rooms :: "bool \<Rightarrow> dict list \<Rightarrow> json list \<times> json list \<Rightarrow> json list \<times> json list" where
  "plan_rooms do_create_local_rooms [] (js, cs) = (js, cs)"
| "plan_rooms do_create_local_rooms (r # rs) (js, cs) =
     (let rid = dict_get r ''room_id'' JNull in
      if \<not> truthy rid then plan_rooms do_create_local_rooms rs (js, cs)
      else if truthy (dict_get r ''federatable'' (JBool True))
        then plan_rooms do_create_local_rooms rs (js @ [rid], cs)
      else if do_create_local_rooms
        then plan_rooms do_create_local_rooms rs (js, cs @ [rid])
      else plan_rooms do_create_local_rooms rs (js, cs))"

text \<open>The second loop, over \<^verbatim>\<open>bundle.aliases.items()\<close>.\<close>

fun plan_aliases :: "string \<Rightarrow> (string \<times> string) list \<Rightarrow> (string \<times> string) list
    \<Rightarrow> (string \<times> string) list" where
  "plan_aliases server_name [] acc = acc"
| "plan_aliases server_name ((alias, rid) # rest) acc =
     (if suffix ('':'' @ server_name) alias
      then plan_aliases server_name rest (sdict_set acc alias rid)
      else plan_aliases server_name rest acc)"

definition build_plan :: "Bundle \<Rightarrow> string \<Rightarrow> bool \<Rightarrow> bool \<Rightarrow> ImportPlan" where
  "build_plan b server_name do_create_local_rooms do_create_aliases =
     (let (js, cs) = plan_rooms do_create_local_rooms (rooms b) ([], []);
          als = (if do_create_aliases then plan_aliases server_name (aliases b) [] else [])
      in \<lparr>join_rooms = js, create_rooms = cs, create_aliases = als\<rparr>)"

section \<open>Importer: unpacking an archive\<close>

text \<open>
  \<^verbatim>\<open>os.path.normpath\<close> and \<^verbatim>\<open>os.path.isabs\<close> of the standard library, in their POSIX
  form: the path is cut at every slash, empty and \<^verbatim>\<open>.\<close> components go, a \<^verbatim>\<open>..\<close> removes
  the component before it where there is one, and one or two leading slashes are kept.
\<close>

fun split_on :: "char \<Rightarrow> string \<Rightarrow> string list" where
  "split_on c [] = [[]]"
| "split_on c (x # xs) =
     (if x = c then [] # split_on c xs
      else (case split_on c xs of [] \<Rightarrow> [[x]] | w # ws \<Rightarrow> (x # w) # ws))"

fun join_with :: "string \<Rightarrow> string list \<Rightarrow> string" where
  "join_with sep [] = []"
| "join_with sep [w] = w"
| "join_with sep (w # ws) = w @ sep @ join_with sep ws"

fun norm_comps :: "nat \<Rightarrow> string list \<Rightarrow> string list \<Rightarrow> string list" where
  "norm_comps initial_slashes [] new_comps = new_comps"
| "norm_comps initial_slashes (cmp # comps) new_comps =
     (if cmp = [] \<or> cmp = ''.'' then norm_comps initial_slashes comps new_comps
      else if cmp \<noteq> ''..'' \<or> (initial_slashes = 0 \<and> new_comps = [])
              \<or> (new_comps \<noteq> [] \<and> last new_comps = ''..'')
        then norm_comps initial_slashes comps (new_comps @ [cmp])
      else if new_comps \<noteq> [] then norm_comps initial_slashes comps (butlast new_comps)
      else norm_comps initial_slashes comps new_comps)"

definition normpath :: "string \<Rightarrow> string" where
  "normpath path =
     (if path = [] then ''.''
      else
        let initial_slashes =
              (if prefix ''/'' path
               then (if prefix ''//'' path \<and> \<not> prefix ''///'' path then 2 else 1)
               else (0::nat));
            comps = norm_comps initial_slashes (split_on CHR ''/'' path) [];
            joined_path = replicate initial_slashes CHR ''/'' @ join_with ''/'' comps
        in if joined_path = [] then ''.'' else joined_path)"

definition isabs :: "string \<Rightarrow> bool" where
  "isabs p = prefix ''/'' p"

text \<open>
  What the reader does to the disk, in order: the temporary directory it makes, the
  temporary tar file a \<^verbatim>\<open>.zst\<close> archive is decompressed into, each member handed to
  \<^verbatim>\<open>tar.extract\<close>, the removal of the temporary tar file. \<^verbatim>\<open>tar.extract\<close> itself is
  taken to succeed.
\<close>

datatype fs_op = Mkdtemp | WriteTmpTar | Extract string | RemoveTmpTar

text \<open>\<^verbatim>\<open>_safe_extract\<close>, over the member names \<^verbatim>\<open>tar.getmembers()\<close> lists.\<close>

definition unsafe_name :: "string \<Rightarrow> bool" where
  "unsafe_name member_name =
     (let normalized = normpath member_name
      in prefix ''/'' normalized \<or> prefix ''..'' normalized \<or> isabs normalized)"

fun safe_extract :: "string list \<Rightarrow> fs_op list \<Rightarrow> (exn + unit) \<times> fs_op list" where
  "safe_extract [] disk = (Inr (), disk)"
| "safe_extract (member # members) disk =
     (if unsafe_name member
      then (Inl (ValueError (''Unsafe path in archive: '' @ member)), disk)
      else safe_extract members (disk @ [Extract member]))"

text \<open>
  The path given to the reader: whether it is a directory, its text, its last component,
  \<^verbatim>\<open>bundle_path.suffix.lower()\<close>, whether decompressing it fails, and the members
  \<^verbatim>\<open>tarfile.open\<close> finds in it (or the exception it raises).
\<close>

record BundlePath =
  bp_is_dir :: bool
  bp_str :: string
  bp_name :: string
  bp_suffix_lower :: string
  bp_decompress :: "exn option"
  bp_members :: "exn + string list"

datatype root_path = GivenPath | TmpDir | TmpEntry string

text \<open>
  The last lines of \<^verbatim>\<open>_extract_bundle_to_temp\<close>; \<open>iterdir\<close> is the listing of the
  temporary directory the operating system gives after these disk operations.
\<close>

definition locate_root :: "(fs_op list \<Rightarrow> string list) \<Rightarrow> fs_op list \<Rightarrow> (exn + root_path) \<times> fs_op list" where
  "locate_root iterdir disk =
     (let entries = iterdir disk
      in (Inr (case entries of [] \<Rightarrow> TmpDir | e # es \<Rightarrow> TmpEntry e), disk))"

definition extract_bundle_to_temp ::
  "bool \<Rightarrow> (fs_op list \<Rightarrow> string list) \<Rightarrow> BundlePath \<Rightarrow> fs_op list \<Rightarrow> (exn + root_path) \<times> fs_op list" where
  "extract_bundle_to_temp zstd iterdir bp disk =
     (if bp_is_dir bp then (Inr GivenPath, disk)
      else
        let disk1 = disk @ [Mkdtemp] in
        if bp_suffix_lower bp = ''.zst'' \<or> suffix ''.tar.zst'' (bp_name bp) then
          (if \<not> zstd
           then (Inl (RuntimeError ''zstandard not installed; cannot unpack .zst archive''), disk1)
           else
             let disk2 = disk1 @ [WriteTmpTar] in
             (case bp_decompress bp of
                Some e \<Rightarrow> (Inl e, disk2)
              | None \<Rightarrow>
                 (case bp_members bp of
                    Inl e \<Rightarrow> (Inl e, disk2)
                  | Inr members \<Rightarrow>
                     (case safe_extract members disk2 of
                        (Inl e, d) \<Rightarrow> (Inl e, d)
                      | (Inr u, d) \<Rightarrow> locate_root iterdir (d @ [RemoveTmpTar])))))
        else if bp_suffix_lower bp = ''.tar'' then
          (case bp_members bp of
             Inl e \<Rightarrow> (Inl e, disk1)
           | Inr members \<Rightarrow>
              (case safe_extract members disk1 of
                 (Inl e, d) \<Rightarrow> (Inl e, d)
               | (Inr u, d) \<Rightarrow> locate_root iterdir d))
        else (Inl (RuntimeError (''Unsupported bundle format: '' @ bp_str bp)), disk1))"

section \<open>Importer: the target server\<close>

text \<open>
  \<^verbatim>\<open>MatrixClient._request\<close> is the boundary to the target server. A request is named
  by its endpoint and arguments; the server is a transition function on a state \<open>'w\<close>
  that answers each request with the decoded body or with the exception \<^verbatim>\<open>_request\<close>
  raises. Every request sent, with its answer, and every \<^verbatim>\<open>time.sleep\<close> is appended
  to a log.
\<close>

datatype request =
    Whoami
  | JoinedRooms
  | JoinById string "string list"
  | JoinByAlias string "string list"
  | CreateRoom dict
  | PutRoomAlias string string

datatype effect = Call request "exn + json" | Sleep rat

type_synonym 'w transport = "'w \<Rightarrow> request \<Rightarrow> (exn + json) \<times> 'w"

type_synonym 'w run = "'w \<times> effect list"

definition do_request :: "'w transport \<Rightarrow> request \<Rightarrow> 'w run \<Rightarrow> (exn + json) \<times> 'w run" where
  "do_request tr rq s =
     (case tr (fst s) rq of (answer, w') \<Rightarrow> (answer, (w', snd s @ [Call rq answer])))"

definition backoff_sleep :: "nat \<Rightarrow> 'w run \<Rightarrow> 'w run" where
  "backoff_sleep attempt s = (fst s, snd s @ [Sleep (min 30 ((3 / 2) ^ attempt))])"

definition joined_rooms :: "'w transport \<Rightarrow> 'w run \<Rightarrow> (exn + json) \<times> 'w run" where
  "joined_rooms tr s =
     (case do_request tr JoinedRooms s of
        (Inl e, s') \<Rightarrow> (Inl e, s')
      | (Inr v, s') \<Rightarrow> (py_get v ''joined_rooms'' (JArr []), s'))"

fun join_room :: "'w transport \<Rightarrow> json \<Rightarrow> string list \<Rightarrow> 'w run \<Rightarrow> (exn + json) \<times> 'w run" where
  "join_room tr (JStr room) via s =
     (if prefix ''!'' room then do_request tr (JoinById room via) s
      else do_request tr (JoinByAlias room via) s)"
| "join_room tr room via s = (Inl (no_attribute room ''startswith''), s)"

definition create_room_body :: "string \<Rightarrow> json \<Rightarrow> json \<Rightarrow> json \<Rightarrow> json \<Rightarrow> json \<Rightarrow> dict" where
  "create_room_body preset invite name topic room_version initial_state =
     [(''preset'', JStr preset)]
     @ (if truthy invite then [(''invite'', invite)] else [])
     @ (if truthy name then [(''name'', name)] else [])
     @ (if truthy topic then [(''topic'', topic)] else [])
     @ (if truthy room_version then [(''room_version'', room_version)] else [])
     @ (if truthy initial_state then [(''initial_state'', initial_state)] else [])"

definition create_room ::
  "'w transport \<Rightarrow> string \<Rightarrow> json \<Rightarrow> json \<Rightarrow> json \<Rightarrow> json \<Rightarrow> json \<Rightarrow> 'w run \<Rightarrow> (exn + json) \<times> 'w run" where
  "create_room tr preset invite name topic room_version initial_state s =
     do_request tr (CreateRoom (create_room_body preset invite name topic room_version initial_state)) s"

definition put_room_alias :: "'w transport \<Rightarrow> string \<Rightarrow> string \<Rightarrow> 'w run \<Rightarrow> (exn + unit) \<times> 'w run" where
  "put_room_alias tr alias room_id s =
     (case do_request tr (PutRoomAlias alias room_id) s of
        (Inl e, s') \<Rightarrow> (Inl e, s')
      | (Inr v, s') \<Rightarrow> (Inr (), s'))"

section \<open>Importer: applying the plan\<close>

record Results =
  joined :: "json list"
  join_failed :: "(json \<times> string) list"
  aliases_created :: "string list"
  aliases_failed :: "(string \<times> string) list"
  rooms_created :: "json list"
  rooms_failed :: "(json \<times> string) list"

text \<open>A \<^verbatim>\<open>for\<close> loop whose body may raise: the first exception ends it.\<close>

fun foreach :: "('a \<Rightarrow> 's \<Rightarrow> exn + 's) \<Rightarrow> 'a list \<Rightarrow> 's \<Rightarrow> exn + 's" where
  "foreach body [] s = Inr s"
| "foreach body (x # xs) s =
     (case body x s of Inl e \<Rightarrow> Inl e | Inr s' \<Rightarrow> foreach body xs s')"

text \<open>\<^verbatim>\<open>set(v)\<close> and \<^verbatim>\<open>x in a_set\<close>.\<close>

definition py_set :: "json \<Rightarrow> exn + json list" where
  "py_set v =
     (case py_iter v of
        Inl e \<Rightarrow> Inl e
      | Inr xs \<Rightarrow>
         (case find (\<lambda>x. \<not> hashable x) xs of
            Some x \<Rightarrow> Inl (unhashable x)
          | None \<Rightarrow> Inr xs))"

definition py_in :: "json \<Rightarrow> json list \<Rightarrow> exn + bool" where
  "py_in x xs = (if hashable x then Inr (list_ex (\<lambda>y. py_eq y x) xs) else Inl (unhashable x))"

text \<open>\<^verbatim>\<open>d.get(k)\<close> on a dict with string keys and any key \<open>k\<close>.\<close>

definition sdict_lookup :: "(string \<times> 'v) list \<Rightarrow> json \<Rightarrow> exn + 'v option" where
  "sdict_lookup d k = (if hashable k then Inr (sdict_get d k) else Inl (unhashable k))"

text \<open>\<^verbatim>\<open>ev.get("content") or {}\<close>.\<close>

definition content_of :: "dict \<Rightarrow> json" where
  "content_of ev = (let c = dict_get ev ''content'' JNull in if truthy c then c else JObj [])"

subsection \<open>Joining rooms\<close>

text \<open>
  The loop \<^verbatim>\<open>for attempt in range(0, 5)\<close> around \<^verbatim>\<open>client.join_room\<close>: the first number is
  how many attempts are left, the second is \<^verbatim>\<open>attempt\<close>. The Boolean is \<^verbatim>\<open>ok\<close>.
\<close>

fun join_attempts ::
  "'w transport \<Rightarrow> json \<Rightarrow> string list \<Rightarrow> nat \<Rightarrow> nat \<Rightarrow> Results \<times> 'w run \<Rightarrow> bool \<times> Results \<times> 'w run" where
  "join_attempts tr rid via 0 attempt (res, s) = (False, res, s)"
| "join_attempts tr rid via (Suc n) attempt (res, s) =
     (case join_room tr rid via s of
        (Inr v, s') \<Rightarrow> (True, res\<lparr>joined := joined res @ [rid]\<rparr>, s')
      | (Inl e, s') \<Rightarrow>
         (if attempt < 4
          then join_attempts tr rid via n (Suc attempt) (res, backoff_sleep attempt s')
          else join_attempts tr rid via n (Suc attempt)
                 (res\<lparr>join_failed := jdict_set (join_failed res) rid (str_exn e)\<rparr>, s')))"

fun canonical_aliases :: "dict list \<Rightarrow> json list \<Rightarrow> exn + json list" where
  "canonical_aliases [] candidate_aliases = Inr candidate_aliases"
| "canonical_aliases (ev # evs) candidate_aliases =
     (if py_eq (dict_get ev ''type'' JNull) (JStr ''m.room.canonical_alias'')
      then (case py_get (content_of ev) ''alias'' JNull of
              Inl e \<Rightarrow> Inl e
            | Inr a \<Rightarrow>
               (if truthy a then canonical_aliases evs (candidate_aliases @ [a])
                else canonical_aliases evs candidate_aliases))
      else canonical_aliases evs candidate_aliases)"

definition candidate_aliases :: "Bundle \<Rightarrow> json \<Rightarrow> exn + json list" where
  "candidate_aliases b rid =
     (case sdict_lookup (room_state b) rid of
        Inl e \<Rightarrow> Inl e
      | Inr st \<Rightarrow>
         (case canonical_aliases (case st of None \<Rightarrow> [] | Some evs \<Rightarrow> evs) [] of
            Inl e \<Rightarrow> Inl e
          | Inr cs \<Rightarrow>
             Inr (cs @ map (\<lambda>(a, arid). JStr a)
                         (filter (\<lambda>(a, arid). py_eq (JStr arid) rid) (aliases b)))))"

fun join_fallback ::
  "'w transport \<Rightarrow> json \<Rightarrow> string list \<Rightarrow> json list \<Rightarrow> Results \<times> 'w run \<Rightarrow> Results \<times> 'w run" where
  "join_fallback tr rid via [] (res, s) = (res, s)"
| "join_fallback tr rid via (a # as) (res, s) =
     (case join_room tr a via s of
        (Inr v, s') \<Rightarrow>
          (res\<lparr>joined := joined res @ [rid],
               join_failed := jdict_pop (join_failed res) rid\<rparr>, s')
      | (Inl e, s') \<Rightarrow>
          join_fallback tr rid via as
            (res\<lparr>join_failed := jdict_set (join_failed res) rid (str_exn e)\<rparr>, s'))"

text \<open>The body of \<^verbatim>\<open>for rid in plan.join_rooms\<close>.\<close>

definition join_one ::
  "'w transport \<Rightarrow> Bundle \<Rightarrow> string list \<Rightarrow> bool \<Rightarrow> json list \<Rightarrow> json \<Rightarrow> Results \<times> 'w run
     \<Rightarrow> exn + Results \<times> 'w run" where
  "join_one tr b via dry_run already_joined rid rs =
     (case py_in rid already_joined of
        Inl e \<Rightarrow> Inl e
      | Inr True \<Rightarrow> Inr ((fst rs)\<lparr>joined := joined (fst rs) @ [rid]\<rparr>, snd rs)
      | Inr False \<Rightarrow>
         (if dry_run then Inr ((fst rs)\<lparr>joined := joined (fst rs) @ [rid]\<rparr>, snd rs)
          else
            (case join_attempts tr rid via 5 0 rs of
               (True, rs') \<Rightarrow> Inr rs'
             | (False, rs') \<Rightarrow>
                (case candidate_aliases b rid of
                   Inl e \<Rightarrow> Inl e
                 | Inr cs \<Rightarrow> Inr (join_fallback tr rid via cs rs')))))"

definition join_phase ::
  "'w transport \<Rightarrow> Bundle \<Rightarrow> ImportPlan \<Rightarrow> string list \<Rightarrow> bool \<Rightarrow> Results \<times> 'w run
     \<Rightarrow> exn + Results \<times> 'w run" where
  "join_phase tr b plan via dry_run rs =
     (case joined_rooms tr (snd rs) of
        (Inl e, s') \<Rightarrow> Inl e
      | (Inr v, s') \<Rightarrow>
         (case py_set v of
            Inl e \<Rightarrow> Inl e
          | Inr already_joined \<Rightarrow>
             foreach (join_one tr b via dry_run already_joined) (join_rooms plan) (fst rs, s')))"

subsection \<open>Creating aliases\<close>

text \<open>The loop \<^verbatim>\<open>for attempt in range(0, 5)\<close> around \<^verbatim>\<open>client.put_room_alias\<close>.\<close>

definition alias_conflict :: "string \<Rightarrow> bool" where
  "alias_conflict msg = (str_contains ''M_ROOM_IN_USE'' msg \<or> str_contains ''already exists'' msg)"

fun alias_attempts ::
  "'w transport \<Rightarrow> string \<Rightarrow> string \<Rightarrow> nat \<Rightarrow> nat \<Rightarrow> Results \<times> 'w run \<Rightarrow> Results \<times> 'w run" where
  "alias_attempts tr alias rid 0 attempt (res, s) = (res, s)"
| "alias_attempts tr alias rid (Suc n) attempt (res, s) =
     (case put_room_alias tr alias rid s of
        (Inr u, s') \<Rightarrow> (res\<lparr>aliases_created := aliases_created res @ [alias]\<rparr>, s')
      | (Inl e, s') \<Rightarrow>
         (let msg = str_exn e in
          if alias_conflict msg
          then (res\<lparr>aliases_created := aliases_created res @ [alias]\<rparr>, s')
          else if attempt < 4
          then alias_attempts tr alias rid n (Suc attempt) (res, backoff_sleep attempt s')
          else alias_attempts tr alias rid n (Suc attempt)
                 (res\<lparr>aliases_failed := sdict_set (aliases_failed res) alias msg\<rparr>, s')))"

text \<open>The body of \<^verbatim>\<open>for alias, rid in plan.create_aliases.items()\<close>.\<close>

definition alias_one ::
  "'w transport \<Rightarrow> bool \<Rightarrow> string \<times> string \<Rightarrow> Results \<times> 'w run \<Rightarrow> Results \<times> 'w run" where
  "alias_one tr dry_run item rs =
     (if dry_run then ((fst rs)\<lparr>aliases_created := aliases_created (fst rs) @ [fst item]\<rparr>, snd rs)
      else alias_attempts tr (fst item) (snd item) 5 0 rs)"

definition alias_phase ::
  "'w transport \<Rightarrow> ImportPlan \<Rightarrow> bool \<Rightarrow> Results \<times> 'w run \<Rightarrow> Results \<times> 'w run" where
  "alias_phase tr plan dry_run rs = fold (alias_one tr dry_run) (create_aliases plan) rs"

subsection \<open>Creating local rooms\<close>

text \<open>
  The loop \<^verbatim>\<open>for ev in st\<close> that derives \<^verbatim>\<open>name\<close>, \<^verbatim>\<open>topic\<close> and \<^verbatim>\<open>initial_state\<close>;
  \<^verbatim>\<open>None\<close> is \<^const>\<open>JNull\<close>.
\<close>

definition forwarded_types :: "json list" where
  "forwarded_types =
     [JStr ''m.room.power_levels'', JStr ''m.room.join_rules'',
      JStr ''m.room.history_visibility'', JStr ''m.room.encryption'']"

fun derive_state :: "dict list \<Rightarrow> json \<times> json \<times> dict list \<Rightarrow> exn + json \<times> json \<times> dict list" where
  "derive_state [] acc = Inr acc"
| "derive_state (ev # evs) (name, topic, initial_state) =
     (let t = dict_get ev ''type'' JNull; content = content_of ev in
      if py_eq t (JStr ''m.room.name'') then
        (case py_get content ''name'' JNull of
           Inl e \<Rightarrow> Inl e
         | Inr n \<Rightarrow> derive_state evs (n, topic, initial_state))
      else if py_eq t (JStr ''m.room.topic'') then
        (case py_get content ''topic'' JNull of
           Inl e \<Rightarrow> Inl e
         | Inr tp \<Rightarrow> derive_state evs (name, tp, initial_state))
      else
        (case py_in t forwarded_types of
           Inl e \<Rightarrow> Inl e
         | Inr True \<Rightarrow>
             derive_state evs
               (name, topic,
                initial_state @ [[(''type'', t), (''state_key'', JStr []), (''content'', content)]])
         | Inr False \<Rightarrow> derive_state evs (name, topic, initial_state)))"

text \<open>The invite list: \<^verbatim>\<open>sorted(set(invites))[:50]\<close>.\<close>

definition invites_of :: "string \<Rightarrow> (string \<times> string) list \<Rightarrow> string list" where
  "invites_of server_name members =
     take 50 (sort (remdups (map fst
       (filter (\<lambda>(uid, m). suffix ('':'' @ server_name) uid \<and> (m = ''join'' \<or> m = ''invite''))
          members))))"

text \<open>The \<^verbatim>\<open>any(...)\<close> that chooses the preset; it stops at the first public join rule.\<close>

fun any_public :: "dict list \<Rightarrow> exn + bool" where
  "any_public [] = Inr False"
| "any_public (ev # evs) =
     (if py_eq (dict_get ev ''type'' JNull) (JStr ''m.room.join_rules'')
      then (case py_get (content_of ev) ''join_rule'' JNull of
              Inl e \<Rightarrow> Inl e
            | Inr jr \<Rightarrow> if py_eq jr (JStr ''public'') then Inr True else any_public evs)
      else any_public evs)"

text \<open>The dict comprehension \<^verbatim>\<open>version_map\<close>.\<close>

fun version_map :: "dict list \<Rightarrow> (json \<times> json) list \<Rightarrow> exn + (json \<times> json) list" where
  "version_map [] vm = Inr vm"
| "version_map (r # rs) vm =
     (let rid = dict_get r ''room_id'' JNull in
      if truthy rid
      then (if hashable rid then version_map rs (jdict_set vm rid (dict_get r ''version'' JNull))
            else Inl (unhashable rid))
      else version_map rs vm)"

text \<open>The body of \<^verbatim>\<open>for rid in plan.create_rooms\<close>.\<close>

definition create_one ::
  "'w transport \<Rightarrow> Bundle \<Rightarrow> string \<Rightarrow> bool \<Rightarrow> (json \<times> json) list \<Rightarrow> json \<Rightarrow> Results \<times> 'w run
     \<Rightarrow> exn + Results \<times> 'w run" where
  "create_one tr b server_name dry_run vm rid rs =
     (if dry_run then Inr ((fst rs)\<lparr>rooms_created := rooms_created (fst rs) @ [rid]\<rparr>, snd rs)
      else
        (case sdict_lookup (room_state b) rid of
           Inl e \<Rightarrow> Inl e
         | Inr st_opt \<Rightarrow>
            (let st = (case st_opt of None \<Rightarrow> [] | Some evs \<Rightarrow> evs) in
             case derive_state st (JNull, JNull, []) of
               Inl e \<Rightarrow> Inl e
             | Inr (name, topic, initial_state) \<Rightarrow>
                (case sdict_lookup (memberships b) rid of
                   Inl e \<Rightarrow> Inl e
                 | Inr m_opt \<Rightarrow>
                    (let invites = invites_of server_name (case m_opt of None \<Rightarrow> [] | Some ms \<Rightarrow> ms) in
                     case any_public st of
                       Inl e \<Rightarrow> Inl e
                     | Inr public \<Rightarrow>
                        (let preset = (if public then ''public_chat'' else ''private_chat'');
                             room_version = (case jdict_get vm rid of None \<Rightarrow> JNull | Some v \<Rightarrow> v)
                         in case create_room tr preset
                                   (if invites \<noteq> [] then JArr (map JStr invites) else JNull)
                                   name topic room_version
                                   (if initial_state \<noteq> [] then JArr (map JObj initial_state) else JNull)
                                   (snd rs) of
                              (Inl e, s') \<Rightarrow>
                                Inr ((fst rs)\<lparr>rooms_failed := jdict_set (rooms_failed (fst rs)) rid (str_exn e)\<rparr>, s')
                            | (Inr created, s') \<Rightarrow>
                                (case py_get created ''room_id'' rid of
                                   Inl e \<Rightarrow>
                                     Inr ((fst rs)\<lparr>rooms_failed := jdict_set (rooms_failed (fst rs)) rid (str_exn e)\<rparr>, s')
                                 | Inr new_id \<Rightarrow>
                                     Inr ((fst rs)\<lparr>rooms_created := rooms_created (fst rs) @ [new_id]\<rparr>, s'))))))))"

definition create_phase ::
  "'w transport \<Rightarrow> Bundle \<Rightarrow> ImportPlan \<Rightarrow> bool \<Rightarrow> string \<Rightarrow> bool \<Rightarrow> Results \<times> 'w run
     \<Rightarrow> exn + Results \<times> 'w run" where
  "create_phase tr b plan create_local_rooms server_name dry_run rs =
     (if create_local_rooms
      then (case version_map (rooms b) [] of
              Inl e \<Rightarrow> Inl e
            | Inr vm \<Rightarrow> foreach (create_one tr b server_name dry_run vm) (create_rooms plan) rs)
      else Inr rs)"

definition empty_results :: Results where
  "empty_results =
     \<lparr>joined = [], join_failed = [], aliases_created = [], aliases_failed = [],
      rooms_created = [], rooms_failed = []\<rparr>"

definition perform_import ::
  "'w transport \<Rightarrow> Bundle \<Rightarrow> ImportPlan \<Rightarrow> string list \<Rightarrow> bool \<Rightarrow> string \<Rightarrow> bool \<Rightarrow> 'w run
     \<Rightarrow> exn + Results \<times> 'w run" where
  "perform_import tr b plan via create_local_rooms server_name dry_run s =
     (case join_phase tr b plan via dry_run (empty_results, s) of
        Inl e \<Rightarrow> Inl e
      | Inr rs1 \<Rightarrow>
          create_phase tr b plan create_local_rooms server_name dry_run
            (alias_phase tr plan dry_run rs1))"

section \<open>Exporter: the source server\<close>

text \<open>
  \<^verbatim>\<open>SynapseAdmin._get\<close> is the boundary to the source server: a request is named by its
  endpoint and arguments, the server is a transition function on a state \<open>'w\<close> that
  answers with the decoded body or with the exception \<^verbatim>\<open>_get\<close> raises.
\<close>

datatype src_request =
    ServerVersion
  | UsersPage json int
  | UserDetails string
  | RoomsPage int int
  | RoomState string
  | RoomMembers string

type_synonym 'w source = "'w \<Rightarrow> src_request \<Rightarrow> (exn + json) \<times> 'w"

text \<open>\<^verbatim>\<open>requests.utils.quote\<close> takes a string; anything else raises.\<close>

definition quote_error :: exn where
  "quote_error = TypeError ''quote_from_bytes() expected bytes''"

definition api_room_state :: "'w source \<Rightarrow> json \<Rightarrow> 'w \<Rightarrow> (exn + json) \<times> 'w" where
  "api_room_state src room_id w =
     (case room_id of JStr s \<Rightarrow> src w (RoomState s) | _ \<Rightarrow> (Inl quote_error, w))"

definition api_room_members :: "'w source \<Rightarrow> json \<Rightarrow> 'w \<Rightarrow> (exn + json) \<times> 'w" where
  "api_room_members src room_id w =
     (case room_id of JStr s \<Rightarrow> src w (RoomMembers s) | _ \<Rightarrow> (Inl quote_error, w))"

text \<open>
  \<^verbatim>\<open>get_user_details\<close>: the quoting is outside the \<^verbatim>\<open>try\<close>, the request inside.
\<close>

definition get_user_details :: "'w source \<Rightarrow> json \<Rightarrow> 'w \<Rightarrow> exn + json \<times> 'w" where
  "get_user_details src user_id w =
     (case user_id of
        JStr s \<Rightarrow>
          (case src w (UserDetails s) of
             (Inl e, w') \<Rightarrow> Inr (JObj [(''_error'', JStr (str_exn e))], w')
           | (Inr v, w') \<Rightarrow> Inr (v, w'))
      | _ \<Rightarrow> Inl quote_error)"

subsection \<open>Pagination\<close>

text \<open>
  \<^verbatim>\<open>list_users\<close> and \<^verbatim>\<open>list_rooms\<close> are generators: the consumer's loop body runs
  between the requests for two pages, and may itself talk to the server. The
  generator is therefore a function of the loop body, which maps the yielded record
  and the consumer's state (its accumulator and the server state) to the next state
  or an exception. The \<^verbatim>\<open>while True\<close> loop need not end: \<open>None\<close> is a run that never
  returns.
\<close>

text \<open>The inner loop of \<^verbatim>\<open>list_users\<close> over one page.\<close>

fun yield_users :: "(json \<Rightarrow> 's \<Rightarrow> exn + 's) \<Rightarrow> json list \<Rightarrow> 's \<Rightarrow> exn + 's" where
  "yield_users body [] s = Inr s"
| "yield_users body (u # us) s =
     (case py_get u ''is_guest'' JNull of
        Inl e \<Rightarrow> Inl e
      | Inr g \<Rightarrow>
         (if truthy g then yield_users body us s
          else (case body u s of Inl e \<Rightarrow> Inl e | Inr s' \<Rightarrow> yield_users body us s')))"

text \<open>One turn of the \<^verbatim>\<open>while True\<close> of \<^verbatim>\<open>list_users\<close>: the page is requested and
  consumed; the result is the next token to go on with, if any.\<close>

definition users_page ::
  "'w source \<Rightarrow> int \<Rightarrow> (json \<Rightarrow> 'a \<times> 'w \<Rightarrow> exn + 'a \<times> 'w) \<Rightarrow> json \<Rightarrow> 'a \<times> 'w
     \<Rightarrow> exn + json option \<times> 'a \<times> 'w" where
  "users_page src limit body from_tok s =
     (case src (snd s) (UsersPage from_tok limit) of
        (Inl e, w) \<Rightarrow> Inl e
      | (Inr data, w) \<Rightarrow>
         (case py_get data ''users'' (JArr []) of
            Inl e \<Rightarrow> Inl e
          | Inr us \<Rightarrow>
             (case py_iter us of
                Inl e \<Rightarrow> Inl e
              | Inr ul \<Rightarrow>
                 (case yield_users body ul (fst s, w) of
                    Inl e \<Rightarrow> Inl e
                  | Inr s' \<Rightarrow>
                     (case py_get data ''next_token'' JNull of
                        Inl e \<Rightarrow> Inl e
                      | Inr next_tok \<Rightarrow>
                         (if next_tok = JNull \<or> py_eq next_tok from_tok
                          then Inr (None, s')
                          else Inr (Some next_tok, s')))))))"

partial_function (option) list_users_from ::
  "'w source \<Rightarrow> int \<Rightarrow> (json \<Rightarrow> 'a \<times> 'w \<Rightarrow> exn + 'a \<times> 'w) \<Rightarrow> json \<Rightarrow> 'a \<times> 'w
     \<Rightarrow> (exn + 'a \<times> 'w) option" where
  "list_users_from src limit body from_tok s =
     (case users_page src limit body from_tok s of
        Inl e \<Rightarrow> Some (Inl e)
      | Inr (None, s') \<Rightarrow> Some (Inr s')
      | Inr (Some next_tok, s') \<Rightarrow> list_users_from src limit body next_tok s')"

definition list_users ::
  "'w source \<Rightarrow> (json \<Rightarrow> 'a \<times> 'w \<Rightarrow> exn + 'a \<times> 'w) \<Rightarrow> 'a \<times> 'w \<Rightarrow> (exn + 'a \<times> 'w) option" where
  "list_users src body s = list_users_from src 1000 body (JInt 0) s"

text \<open>
  \<^verbatim>\<open>int(x)\<close>; how a string is read as a number is the built-in's business and is the
  parameter \<open>parse\<close> (\<open>None\<close> where the built-in raises \<^verbatim>\<open>ValueError\<close>).
\<close>

definition int_type_error :: "json \<Rightarrow> exn" where
  "int_type_error v =
     TypeError (''int() argument must be a string, a bytes-like object or a real number, not ''
                @ quoted (type_name v))"

fun py_int :: "(string \<Rightarrow> int option) \<Rightarrow> json \<Rightarrow> exn + int" where
  "py_int parse (JInt i) = Inr i"
| "py_int parse (JBool b) = Inr (of_bool b)"
| "py_int parse (JStr s) =
     (case parse s of
        None \<Rightarrow> Inl (ValueError (''invalid literal for int() with base 10: '' @ quoted s))
      | Some i \<Rightarrow> Inr i)"
| "py_int parse v = Inl (int_type_error v)"

fun value_or_type_error :: "exn \<Rightarrow> bool" where
  "value_or_type_error (ValueError m) = True"
| "value_or_type_error (TypeError m) = True"
| "value_or_type_error e = False"

text \<open>One turn of the \<^verbatim>\<open>while True\<close> of \<^verbatim>\<open>list_rooms\<close>.\<close>

definition rooms_page ::
  "'w source \<Rightarrow> (string \<Rightarrow> int option) \<Rightarrow> int \<Rightarrow> (json \<Rightarrow> 'a \<times> 'w \<Rightarrow> exn + 'a \<times> 'w) \<Rightarrow> int \<Rightarrow> 'a \<times> 'w
     \<Rightarrow> exn + int option \<times> 'a \<times> 'w" where
  "rooms_page src parse limit body from_tok s =
     (case src (snd s) (RoomsPage from_tok limit) of
        (Inl e, w) \<Rightarrow> Inl e
      | (Inr data, w) \<Rightarrow>
         (case py_get data ''rooms'' (JArr []) of
            Inl e \<Rightarrow> Inl e
          | Inr rs \<Rightarrow>
             (case py_iter rs of
                Inl e \<Rightarrow> Inl e
              | Inr rl \<Rightarrow>
                 (case foreach body rl (fst s, w) of
                    Inl e \<Rightarrow> Inl e
                  | Inr s' \<Rightarrow>
                     (case py_get data ''next_batch'' JNull of
                        Inl e \<Rightarrow> Inl e
                      | Inr next_batch \<Rightarrow>
                         (case py_get data ''next_token'' JNull of
                            Inl e \<Rightarrow> Inl e
                          | Inr next_token \<Rightarrow>
                             (let next_tok = (if truthy next_batch then next_batch else next_token) in
                              if \<not> truthy next_tok then Inr (None, s')
                              else (case py_int parse next_tok of
                                      Inl e \<Rightarrow> if value_or_type_error e then Inr (None, s') else Inl e
                                    | Inr i \<Rightarrow> Inr (Some i, s')))))))))"

partial_function (option) list_rooms_from ::
  "'w source \<Rightarrow> (string \<Rightarrow> int option) \<Rightarrow> int \<Rightarrow> (json \<Rightarrow> 'a \<times> 'w \<Rightarrow> exn + 'a \<times> 'w) \<Rightarrow> int \<Rightarrow> 'a \<times> 'w
     \<Rightarrow> (exn + 'a \<times> 'w) option" where
  "list_rooms_from src parse limit body from_tok s =
     (case rooms_page src parse limit body from_tok s of
        Inl e \<Rightarrow> Some (Inl e)
      | Inr (None, s') \<Rightarrow> Some (Inr s')
      | Inr (Some next_tok, s') \<Rightarrow> list_rooms_from src parse limit body next_tok s')"

definition list_rooms ::
  "'w source \<Rightarrow> (string \<Rightarrow> int option) \<Rightarrow> (json \<Rightarrow> 'a \<times> 'w \<Rightarrow> exn + 'a \<times> 'w) \<Rightarrow> 'a \<times> 'w
     \<Rightarrow> (exn + 'a \<times> 'w) option" where
  "list_rooms src parse body s = list_rooms_from src parse 500 body 0 s"

subsection \<open>Collecting the documents\<close>

text \<open>
  The part of \<^verbatim>\<open>ExporterConfig\<close> the collection reads, and the documents
  \<^verbatim>\<open>export_all\<close> builds up to \<^verbatim>\<open>aliases.json\<close>. A dict built by the exporter may have
  any hashable value as a key. The steps after \<^verbatim>\<open>aliases.json\<close> (devices, metadata,
  manifest, archive) do not touch these documents.
\<close>

record ExporterConfig =
  cfg_server_name :: "string option"

record Collected =
  c_server_ver :: json
  c_users :: "dict list"
  c_rooms_basic :: "dict list"
  c_room_state :: "(json \<times> json list) list"
  c_memberships :: "(json \<times> (json \<times> json) list) list"
  c_aliases :: "(json \<times> json) list"

text \<open>The record \<^verbatim>\<open>export_all\<close> appends to \<^verbatim>\<open>users\<close> for the listed user \<open>u\<close>.\<close>

definition user_record :: "dict \<Rightarrow> json \<Rightarrow> dict" where
  "user_record u threepids =
     [(''name'', dict_get u ''name'' JNull),
      (''user_id'', dict_get u ''name'' JNull),
      (''displayname'', dict_get u ''displayname'' JNull),
      (''is_admin'', dict_get u ''is_admin'' JNull),
      (''deactivated'', dict_get u ''deactivated'' JNull),
      (''shadow_banned'', dict_get u ''shadow_banned'' JNull),
      (''creation_ts'', dict_get u ''creation_ts'' JNull),
      (''threepids'', threepids)]"

text \<open>The body of \<^verbatim>\<open>for u in api.list_users()\<close>.\<close>

definition export_user :: "'w source \<Rightarrow> json \<Rightarrow> dict list \<times> 'w \<Rightarrow> exn + dict list \<times> 'w" where
  "export_user src u s =
     (case u of
        JObj ud \<Rightarrow>
          (let uid = dict_get ud ''name'' JNull in
           case (if truthy uid then get_user_details src uid (snd s) else Inr (JObj [], snd s)) of
             Inl e \<Rightarrow> Inl e
           | Inr (details, w') \<Rightarrow>
              (let threepids = (case details of JObj d \<Rightarrow> dict_get d ''threepids'' JNull | _ \<Rightarrow> JNull)
               in Inr (fst s @ [user_record ud threepids], w')))
      | _ \<Rightarrow> Inl (no_attribute u ''get''))"

text \<open>The body of \<^verbatim>\<open>for r in api.list_rooms()\<close>.\<close>

definition export_room :: "json \<Rightarrow> dict list \<times> 'w \<Rightarrow> exn + dict list \<times> 'w" where
  "export_room r s =
     (case r of
        JObj rd \<Rightarrow>
          Inr (fst s @
            [[(''room_id'', dict_get rd ''room_id'' JNull),
              (''name'', dict_get rd ''name'' JNull),
              (''canonical_alias'', dict_get rd ''canonical_alias'' JNull),
              (''creator'', dict_get rd ''creator'' JNull),
              (''join_rules'', dict_get rd ''join_rules'' JNull),
              (''guest_access'', dict_get rd ''guest_access'' JNull),
              (''history_visibility'', dict_get rd ''history_visibility'' JNull),
              (''federatable'', dict_get rd ''federatable'' JNull),
              (''public'', dict_get rd ''public'' JNull),
              (''version'', dict_get rd ''version'' JNull)]], snd s)
      | _ \<Rightarrow> Inl (no_attribute r ''get''))"

definition important_state_types :: "json list" where
  "important_state_types =
     [JStr ''m.room.create'', JStr ''m.room.power_levels'', JStr ''m.room.join_rules'',
      JStr ''m.room.history_visibility'', JStr ''m.room.guest_access'',
      JStr ''m.room.canonical_alias'', JStr ''m.room.name'', JStr ''m.room.topic'',
      JStr ''m.room.encryption'', JStr ''m.room.server_acl'', JStr ''m.room.avatar'',
      JStr ''m.space.child'', JStr ''m.space.parent'']"

text \<open>The list comprehension \<^verbatim>\<open>filtered\<close>.\<close>

fun filter_important :: "json list \<Rightarrow> exn + json list" where
  "filter_important [] = Inr []"
| "filter_important (ev # evs) =
     (case py_get ev ''type'' JNull of
        Inl e \<Rightarrow> Inl e
      | Inr t \<Rightarrow>
         (case py_in t important_state_types of
            Inl e \<Rightarrow> Inl e
          | Inr keep \<Rightarrow>
             (case filter_important evs of
                Inl e \<Rightarrow> Inl e
              | Inr rest \<Rightarrow> Inr (if keep then ev # rest else rest))))"

text \<open>\<^verbatim>\<open>d[k] = v\<close> on a dict the exporter builds.\<close>

definition jdict_store :: "(json \<times> 'v) list \<Rightarrow> json \<Rightarrow> 'v \<Rightarrow> exn + (json \<times> 'v) list" where
  "jdict_store d k v = (if hashable k then Inr (jdict_set d k v) else Inl (unhashable k))"

text \<open>\<^verbatim>\<open>a.endswith(t)\<close> for any value \<open>a\<close>.\<close>

fun py_endswith :: "json \<Rightarrow> string \<Rightarrow> exn + bool" where
  "py_endswith (JStr s) t = Inr (suffix t s)"
| "py_endswith v t = Inl (no_attribute v ''endswith'')"

text \<open>The loop over the aliases of an \<^verbatim>\<open>m.room.aliases\<close> event.\<close>

fun server_aliases :: "string option \<Rightarrow> json \<Rightarrow> json list \<Rightarrow> (json \<times> json) list \<Rightarrow> exn + (json \<times> json) list" where
  "server_aliases sn rid [] als = Inr als"
| "server_aliases sn rid (a # as) als =
     (case sn of
        None \<Rightarrow> server_aliases sn rid as als
      | Some server \<Rightarrow>
         (if server = [] then server_aliases sn rid as als
          else (case py_endswith a ('':'' @ server) of
                  Inl e \<Rightarrow> Inl e
                | Inr True \<Rightarrow>
                    (case jdict_store als a rid of
                       Inl e \<Rightarrow> Inl e
                     | Inr als' \<Rightarrow> server_aliases sn rid as als')
                | Inr False \<Rightarrow> server_aliases sn rid as als)))"

text \<open>
  The body of \<^verbatim>\<open>for ev in st\<close> that derives the aliases: the \<^verbatim>\<open>if\<close> for an
  \<^verbatim>\<open>m.room.aliases\<close> event, then the \<^verbatim>\<open>if\<close> for an \<^verbatim>\<open>m.room.canonical_alias\<close> event;
  \<open>t\<close> is \<^verbatim>\<open>ev.get("type")\<close>.
\<close>

definition aliases_event :: "string option \<Rightarrow> json \<Rightarrow> json \<Rightarrow> json \<Rightarrow> (json \<times> json) list \<Rightarrow> exn + (json \<times> json) list" where
  "aliases_event sn rid ev t als =
     (if py_eq t (JStr ''m.room.aliases'')
      then (case py_get ev ''content'' (JObj []) of
              Inl e \<Rightarrow> Inl e
            | Inr content \<Rightarrow>
               (case py_get content ''aliases'' (JArr []) of
                  Inl e \<Rightarrow> Inl e
                | Inr al \<Rightarrow>
                   (case py_iter (if truthy al then al else JArr []) of
                      Inl e \<Rightarrow> Inl e
                    | Inr as \<Rightarrow> server_aliases sn rid as als)))
      else Inr als)"

definition canonical_alias_event :: "string option \<Rightarrow> json \<Rightarrow> json \<Rightarrow> json \<Rightarrow> (json \<times> json) list \<Rightarrow> exn + (json \<times> json) list" where
  "canonical_alias_event sn rid ev t als =
     (if py_eq t (JStr ''m.room.canonical_alias'')
      then (case py_get ev ''content'' (JObj []) of
              Inl e \<Rightarrow> Inl e
            | Inr c \<Rightarrow>
               (case py_get (if truthy c then c else JObj []) ''alias'' JNull of
                  Inl e \<Rightarrow> Inl e
                | Inr a \<Rightarrow>
                   (if \<not> truthy a then Inr als
                    else (case sn of
                            None \<Rightarrow> jdict_store als a rid
                          | Some server \<Rightarrow>
                             (case py_endswith a ('':'' @ server) of
                                Inl e \<Rightarrow> Inl e
                              | Inr True \<Rightarrow> jdict_store als a rid
                              | Inr False \<Rightarrow> Inr als)))))
      else Inr als)"

definition derive_aliases :: "string option \<Rightarrow> json \<Rightarrow> json \<Rightarrow> (json \<times> json) list \<Rightarrow> exn + (json \<times> json) list" where
  "derive_aliases sn rid ev als =
     (case py_get ev ''type'' JNull of
        Inl e \<Rightarrow> Inl e
      | Inr t \<Rightarrow>
         (case aliases_event sn rid ev t als of
            Inl e \<Rightarrow> Inl e
          | Inr als1 \<Rightarrow> canonical_alias_event sn rid ev t als1))"

text \<open>The loop over \<^verbatim>\<open>mem.get("chunk", [])\<close> that fills \<^verbatim>\<open>room_members\<close>.\<close>

fun room_members_loop :: "json list \<Rightarrow> (json \<times> json) list \<Rightarrow> exn + (json \<times> json) list" where
  "room_members_loop [] room_members = Inr room_members"
| "room_members_loop (ev # evs) room_members =
     (case py_get ev ''type'' JNull of
        Inl e \<Rightarrow> Inl e
      | Inr t \<Rightarrow>
         (if py_eq t (JStr ''m.room.member'')
          then (case py_get ev ''state_key'' JNull of
                  Inl e \<Rightarrow> Inl e
                | Inr uid \<Rightarrow>
                   (case py_get ev ''content'' JNull of
                      Inl e \<Rightarrow> Inl e
                    | Inr c \<Rightarrow>
                       (case py_get (if truthy c then c else JObj []) ''membership'' JNull of
                          Inl e \<Rightarrow> Inl e
                        | Inr membership \<Rightarrow>
                           (if truthy uid \<and> truthy membership
                            then (case jdict_store room_members uid membership of
                                    Inl e \<Rightarrow> Inl e
                                  | Inr rm \<Rightarrow> room_members_loop evs rm)
                            else room_members_loop evs room_members))))
          else room_members_loop evs room_members))"

text \<open>The \<^verbatim>\<open>try\<close> block that computes the membership entry of one room.\<close>

definition members_entry :: "'w source \<Rightarrow> json \<Rightarrow> 'w \<Rightarrow> (json \<times> json) list \<times> 'w" where
  "members_entry src rid w =
     (case api_room_members src rid w of
        (Inl e, w') \<Rightarrow> ([(JStr ''_error'', JStr (str_exn e))], w')
      | (Inr mem, w') \<Rightarrow>
         (case py_get mem ''chunk'' (JArr []) of
            Inl e \<Rightarrow> ([(JStr ''_error'', JStr (str_exn e))], w')
          | Inr chunk \<Rightarrow>
             (case py_iter chunk of
                Inl e \<Rightarrow> ([(JStr ''_error'', JStr (str_exn e))], w')
              | Inr evs \<Rightarrow>
                 (case room_members_loop evs [] of
                    Inl e \<Rightarrow> ([(JStr ''_error'', JStr (str_exn e))], w')
                  | Inr room_members \<Rightarrow> (room_members, w')))))"

text \<open>The body of \<^verbatim>\<open>for rb in rooms_basic\<close>.\<close>

definition collect_room ::
  "'w source \<Rightarrow> ExporterConfig \<Rightarrow> dict \<Rightarrow> Collected \<times> 'w \<Rightarrow> exn + Collected \<times> 'w" where
  "collect_room src cfg rb s =
     (let rid = dict_get rb ''room_id'' JNull in
      if \<not> truthy rid then Inr s
      else
        (case api_room_state src rid (snd s) of (fetched, w1) \<Rightarrow>
          (let st = (case fetched of
                       Inl e \<Rightarrow> JArr [JObj [(''error'', JStr (str_exn e))]]
                     | Inr v \<Rightarrow> v)
           in case py_iter st of
                Inl e \<Rightarrow> Inl e
              | Inr evs \<Rightarrow>
                 (case filter_important evs of
                    Inl e \<Rightarrow> Inl e
                  | Inr filtered \<Rightarrow>
                     (case jdict_store (c_room_state (fst s)) rid filtered of
                        Inl e \<Rightarrow> Inl e
                      | Inr room_state' \<Rightarrow>
                         (case foreach (derive_aliases (cfg_server_name cfg) rid) evs (c_aliases (fst s)) of
                            Inl e \<Rightarrow> Inl e
                          | Inr aliases' \<Rightarrow>
                             (case members_entry src rid w1 of (entry, w2) \<Rightarrow>
                                Inr ((fst s)\<lparr>c_room_state := room_state',
                                            c_aliases := aliases',
                                            c_memberships := jdict_set (c_memberships (fst s)) rid entry\<rparr>,
                                     w2))))))))"

text \<open>
  \<^verbatim>\<open>export_all\<close> up to \<^verbatim>\<open>aliases.json\<close>; \<open>None\<close> when a listing never ends.
\<close>

definition server_version :: "'w source \<Rightarrow> 'w \<Rightarrow> json \<times> 'w" where
  "server_version src w =
     (case src w ServerVersion of
        (Inl e, w') \<Rightarrow> (JObj [(''warning'', JStr (''server_version failed: '' @ str_exn e))], w')
      | (Inr v, w') \<Rightarrow> (v, w'))"

definition export_all ::
  "'w source \<Rightarrow> (string \<Rightarrow> int option) \<Rightarrow> ExporterConfig \<Rightarrow> 'w \<Rightarrow> (exn + Collected \<times> 'w) option" where
  "export_all src parse cfg w =
     (case server_version src w of (server_ver, w0) \<Rightarrow>
       (case list_users src (export_user src) ([], w0) of
          None \<Rightarrow> None
        | Some (Inl e) \<Rightarrow> Some (Inl e)
        | Some (Inr (users_doc, w1)) \<Rightarrow>
           (case list_rooms src parse export_room ([], w1) of
              None \<Rightarrow> None
            | Some (Inl e) \<Rightarrow> Some (Inl e)
            | Some (Inr (rooms_basic, w2)) \<Rightarrow>
               Some (foreach (collect_room src cfg) rooms_basic
                       (\<lparr>c_server_ver = server_ver, c_users = users_doc, c_rooms_basic = rooms_basic,
                         c_room_state = [], c_memberships = [], c_aliases = []\<rparr>, w2)))))"

section \<open>Example inputs and trace shapes\<close>



text \<open>A target without state that is joined to \<^verbatim>\<open>!a:x\<close> and refuses everything else.\<close>

definition target_joined_a :: "unit transport" where
  "target_joined_a w rq =
     (case rq of
        JoinedRooms \<Rightarrow> (Inr (JObj [(''joined_rooms'', JArr [JStr ''!a:x''])]), w)
      | _ \<Rightarrow> (Inl (RuntimeError ''HTTP 500''), w))"




text \<open>A state snapshot with two name events, the second under a state key.\<close>

definition two_names :: "dict list" where
  "two_names =
     [[(''type'', JStr ''m.room.name''), (''state_key'', JStr []),
       (''content'', JObj [(''name'', JStr ''Town'')])],
      [(''type'', JStr ''m.room.name''), (''state_key'', JStr ''x''),
       (''content'', JObj [(''name'', JStr ''Other'')])]]"

text \<open>A bundle and a plan with the single room \<^verbatim>\<open>!a:x\<close>.\<close>

definition bundle_a :: Bundle where
  "bundle_a =
     \<lparr>root = ''export_bundle'', users = [],
      rooms = [[(''room_id'', JStr ''!a:x''), (''federatable'', JBool True)]],
      room_state = [], memberships = [], aliases = [], metadata = [], devices = None\<rparr>"

definition plan_a :: ImportPlan where
  "plan_a = \<lparr>join_rooms = [JStr ''!a:x''], create_rooms = [], create_aliases = []\<rparr>"

text \<open>
  A source with one user and one guest, and one room with a canonical alias; every
  listing fits on one page.
\<close>

definition demo_source :: "unit source" where
  "demo_source w rq =
     (case rq of
        ServerVersion \<Rightarrow> (Inr (JObj [(''server_version'', JStr ''1.99'')]), w)
      | UsersPage tok n \<Rightarrow>
          (Inr (JObj [(''users'',
                  JArr [JObj [(''name'', JStr ''@alice:x''), (''is_guest'', JBool False)],
                        JObj [(''name'', JStr ''@guest:x''), (''is_guest'', JBool True)]])]), w)
      | UserDetails u \<Rightarrow> (Inr (JObj [(''threepids'', JArr [])]), w)
      | RoomsPage tok n \<Rightarrow>
          (Inr (JObj [(''rooms'', JArr [JObj [(''room_id'', JStr ''!a:x'')]])]), w)
      | RoomState r \<Rightarrow>
          (Inr (JArr [JObj [(''type'', JStr ''m.room.canonical_alias''),
                            (''content'', JObj [(''alias'', JStr ''#town:x'')])]]), w)
      | RoomMembers r \<Rightarrow> (Inr (JObj [(''chunk'', JArr [])]), w))"

text \<open>The same source when the state and the members of the room cannot be fetched.\<close>

definition broken_room_source :: "unit source" where
  "broken_room_source w rq =
     (case rq of
        RoomState r \<Rightarrow> (Inl (RuntimeError ''HTTP 500: boom''), w)
      | RoomMembers r \<Rightarrow> (Inl (RuntimeError ''HTTP 500: boom''), w)
      | _ \<Rightarrow> demo_source w rq)"

text \<open>A source that answers every request for a page of rooms with the same token.\<close>

definition stuck_rooms_source :: "unit source" where
  "stuck_rooms_source w rq =
     (case rq of
        RoomsPage tok n \<Rightarrow>
          (Inr (JObj [(''rooms'', JArr [JObj [(''room_id'', JStr ''!a:x'')]]),
                      (''next_batch'', JInt 5)]), w)
      | _ \<Rightarrow> demo_source w rq)"

text \<open>The record \<^verbatim>\<open>export_all\<close> keeps of a room of which only the id is known.\<close>

definition room_a :: dict where
  "room_a =
     [(''room_id'', JStr ''!a:x''), (''name'', JNull), (''canonical_alias'', JNull),
      (''creator'', JNull), (''join_rules'', JNull), (''guest_access'', JNull),
      (''history_visibility'', JNull), (''federatable'', JNull), (''public'', JNull),
      (''version'', JNull)]"

section \<open>The plan builder\<close>

text \<open>
  What the two lists of the plan hold: the room ids (true in Python's sense) of the
  rooms whose federatable value is missing or true in Python's sense, and, with the
  switch on, those of the rooms whose federatable value is present and false in
  Python's sense. A flag that is present as \<^verbatim>\<open>null\<close>, as the exporter writes it for
  a room whose flag the source did not give, counts as false.
\<close>

lemma plan_rooms_lists:
  "plan_rooms d rs (js, cs) =
     (js @ map (\<lambda>r. dict_get r ''room_id'' JNull)
             (filter (\<lambda>r. truthy (dict_get r ''room_id'' JNull)
                          \<and> truthy (dict_get r ''federatable'' (JBool True))) rs),
      cs @ map (\<lambda>r. dict_get r ''room_id'' JNull)
             (filter (\<lambda>r. truthy (dict_get r ''room_id'' JNull)
                          \<and> \<not> truthy (dict_get r ''federatable'' (JBool True)) \<and> d) rs))"
  by (induction rs arbitrary: js cs) (auto simp: Let_def)

lemma build_plan_join_rooms:
  "join_rooms (build_plan b sn d a) =
     map (\<lambda>r. dict_get r ''room_id'' JNull)
       (filter (\<lambda>r. truthy (dict_get r ''room_id'' JNull)
                    \<and> truthy (dict_get r ''federatable'' (JBool True))) (rooms b))"
  by (simp add: build_plan_def plan_rooms_lists)

lemma build_plan_create_rooms:
  "create_rooms (build_plan b sn d a) =
     map (\<lambda>r. dict_get r ''room_id'' JNull)
       (filter (\<lambda>r. truthy (dict_get r ''room_id'' JNull)
                    \<and> \<not> truthy (dict_get r ''federatable'' (JBool True)) \<and> d) (rooms b))"
  by (simp add: build_plan_def plan_rooms_lists)

text \<open>
  C2. A room record with a room id whose federatable flag carries no value
  (\<^verbatim>\<open>"federatable": null\<close>) is not put in the join list: with the local-room switch
  on it is put in the local-create list, with the switch off it is in no list.
\<close>

theorem build_plan_null_federatable:
  "build_plan \<lparr>root = ''export_bundle'', users = [],
                rooms = [[(''room_id'', JStr ''!a:x''), (''federatable'', JNull)]],
                room_state = [], memberships = [], aliases = [], metadata = [], devices = None\<rparr>
      ''x'' True False
     = \<lparr>join_rooms = [], create_rooms = [JStr ''!a:x''], create_aliases = []\<rparr>
   \<and> build_plan \<lparr>root = ''export_bundle'', users = [],
                rooms = [[(''room_id'', JStr ''!a:x''), (''federatable'', JNull)]],
                room_state = [], memberships = [], aliases = [], metadata = [], devices = None\<rparr>
      ''x'' False False
     = \<lparr>join_rooms = [], create_rooms = [], create_aliases = []\<rparr>"
  by (simp add: build_plan_def dict_get_def)

section \<open>The bundle reader\<close>

lemma safe_extract_all_safe:
  "\<forall>m \<in> set members. \<not> unsafe_name m \<Longrightarrow>
     safe_extract members disk = (Inr (), disk @ map Extract members)"
  by (induction members arbitrary: disk) auto

text \<open>
  The test of \<^verbatim>\<open>_safe_extract\<close> covers every member whose normalized path is absolute
  or begins with the segment \<^verbatim>\<open>..\<close>.
\<close>

lemma traversal_is_unsafe:
  "isabs (normpath m) \<or> normpath m = ''..'' \<or> prefix ''../'' (normpath m) \<Longrightarrow> unsafe_name m"
  by (auto simp: unsafe_name_def isabs_def Let_def prefix_def)


lemma safe_extract_first_unsafe:
  assumes "\<exists>m \<in> set members. unsafe_name m"
  shows "\<exists>pre bad post. members = pre @ bad # post \<and> (\<forall>m \<in> set pre. \<not> unsafe_name m)
            \<and> unsafe_name bad
            \<and> safe_extract members disk
                = (Inl (ValueError (''Unsafe path in archive: '' @ bad)), disk @ map Extract pre)"
  using assms
proof (induction members arbitrary: disk)
  case Nil
  then show ?case by simp
next
  case (Cons m ms)
  show ?case
  proof (cases "unsafe_name m")
    case True
    then have "m # ms = [] @ m # ms \<and> (\<forall>x \<in> set []. \<not> unsafe_name x) \<and> unsafe_name m
        \<and> safe_extract (m # ms) disk
             = (Inl (ValueError (''Unsafe path in archive: '' @ m)), disk @ map Extract [])"
      by simp
    then show ?thesis by blast
  next
    case False
    with Cons.prems have "\<exists>x \<in> set ms. unsafe_name x" by auto
    from Cons.IH [OF this, of "disk @ [Extract m]"]
    obtain pre bad post where h: "ms = pre @ bad # post" "\<forall>x \<in> set pre. \<not> unsafe_name x"
      "unsafe_name bad"
      "safe_extract ms (disk @ [Extract m])
         = (Inl (ValueError (''Unsafe path in archive: '' @ bad)), (disk @ [Extract m]) @ map Extract pre)"
      by blast
    from h False have "m # ms = (m # pre) @ bad # post \<and> (\<forall>x \<in> set (m # pre). \<not> unsafe_name x)
        \<and> unsafe_name bad
        \<and> safe_extract (m # ms) disk
             = (Inl (ValueError (''Unsafe path in archive: '' @ bad)), disk @ map Extract (m # pre))"
      by simp
    then show ?thesis by blast
  qed
qed



text \<open>The whole load of a \<^verbatim>\<open>.tar\<close> archive with an unsafe member fails in the same way.\<close>

lemma extract_tar_rejects_unsafe:
  assumes "\<not> bp_is_dir bp" "bp_suffix_lower bp = ''.tar''" "\<not> suffix ''.tar.zst'' (bp_name bp)"
    "bp_members bp = Inr members" "\<exists>m \<in> set members. unsafe_name m"
  shows "\<exists>bad d. unsafe_name bad \<and> bad \<in> set members
           \<and> extract_bundle_to_temp zstd iterdir bp disk
               = (Inl (ValueError (''Unsafe path in archive: '' @ bad)), d)"
proof -
  from safe_extract_first_unsafe [OF assms(5), of "disk @ [Mkdtemp]"]
  obtain pre bad post where h: "members = pre @ bad # post" "unsafe_name bad"
    "safe_extract members (disk @ [Mkdtemp])
       = (Inl (ValueError (''Unsafe path in archive: '' @ bad)), (disk @ [Mkdtemp]) @ map Extract pre)"
    by blast
  from h(1) have "bad \<in> set members" by simp
  moreover from assms(1-4) h(3)
  have "extract_bundle_to_temp zstd iterdir bp disk
          = (Inl (ValueError (''Unsafe path in archive: '' @ bad)), (disk @ [Mkdtemp]) @ map Extract pre)"
    by (simp add: extract_bundle_to_temp_def Let_def)
  ultimately show ?thesis using h(2) by blast
qed





section \<open>The reconciler\<close>

lemma foreach_append:
  "foreach body (xs @ ys) s =
     (case foreach body xs s of Inl e \<Rightarrow> Inl e | Inr s' \<Rightarrow> foreach body ys s')"
  by (induction xs arbitrary: s) (auto split: sum.splits)

lemma join_one_already_joined:
  "py_in rid already_joined = Inr True \<Longrightarrow>
     join_one tr b via dry_run already_joined rid rs
       = Inr ((fst rs)\<lparr>joined := joined (fst rs) @ [rid]\<rparr>, snd rs)"
  by (simp add: join_one_def)

lemma join_phase_reaches:
  assumes "joined_rooms tr s = (Inr v, s0)"
    and "py_set v = Inr already_joined"
    and "py_in rid already_joined = Inr True"
    and "join_rooms plan = pre @ rid # post"
    and "foreach (join_one tr b via dry_run already_joined) pre (res, s0) = Inr (res1, s1)"
  shows "join_phase tr b plan via dry_run (res, s)
           = foreach (join_one tr b via dry_run already_joined) post
               (res1\<lparr>joined := joined res1 @ [rid]\<rparr>, s1)"
  using assms by (simp add: join_phase_def foreach_append join_one_already_joined)

text \<open>
  C4. The join phase takes the joined-rooms set once, at its start. When its loop
  reaches a room id of the plan's join list that is in this set, the room id is
  appended to the joined list and the loop goes on with the server state and the log
  of requests and sleeps as they were: no join call is issued for it.
\<close>

theorem already_joined_is_recorded_without_call:
  assumes "joined_rooms tr s = (Inr v, s0)"
    and "py_set v = Inr already_joined"
    and "py_in rid already_joined = Inr True"
    and "join_rooms plan = pre @ rid # post"
    and "foreach (join_one tr b via dry_run already_joined) pre (res, s0) = Inr (res1, s1)"
  shows "join_phase tr b plan via dry_run (res, s)
           = foreach (join_one tr b via dry_run already_joined) post
               (res1\<lparr>joined := joined res1 @ [rid]\<rparr>, s1)"
  using assms by (rule join_phase_reaches)

theorem already_joined_is_recorded_without_call_witness:
  "joined_rooms target_joined_a ((), [])
     = (Inr (JArr [JStr ''!a:x'']),
        ((), [Call JoinedRooms (Inr (JObj [(''joined_rooms'', JArr [JStr ''!a:x''])]))]))
   \<and> py_set (JArr [JStr ''!a:x'']) = Inr [JStr ''!a:x'']
   \<and> py_in (JStr ''!a:x'') [JStr ''!a:x''] = Inr True
   \<and> join_phase target_joined_a bundle_a plan_a [''old.example.org''] False (empty_results, ((), []))
       = Inr (empty_results\<lparr>joined := [JStr ''!a:x'']\<rparr>,
              ((), [Call JoinedRooms (Inr (JObj [(''joined_rooms'', JArr [JStr ''!a:x''])]))]))"
proof -
  have h1: "joined_rooms target_joined_a ((), [])
     = (Inr (JArr [JStr ''!a:x'']),
        ((), [Call JoinedRooms (Inr (JObj [(''joined_rooms'', JArr [JStr ''!a:x''])]))]))"
    by (simp add: joined_rooms_def do_request_def target_joined_a_def dict_get_def)
  have h2: "py_set (JArr [JStr ''!a:x'']) = Inr [JStr ''!a:x'']"
    by (simp add: py_set_def)
  have h3: "py_in (JStr ''!a:x'') [JStr ''!a:x''] = Inr True"
    by (simp add: py_in_def)
  have h4: "join_rooms plan_a = [] @ JStr ''!a:x'' # []"
    by (simp add: plan_a_def)
  have h5: "foreach (join_one target_joined_a bundle_a [''old.example.org''] False [JStr ''!a:x'']) []
              (empty_results, ((), [Call JoinedRooms (Inr (JObj [(''joined_rooms'', JArr [JStr ''!a:x''])]))]))
            = Inr (empty_results, ((), [Call JoinedRooms (Inr (JObj [(''joined_rooms'', JArr [JStr ''!a:x''])]))]))"
    by simp
  have c: "join_phase target_joined_a bundle_a plan_a [''old.example.org''] False (empty_results, ((), []))
       = Inr (empty_results\<lparr>joined := [JStr ''!a:x'']\<rparr>,
              ((), [Call JoinedRooms (Inr (JObj [(''joined_rooms'', JArr [JStr ''!a:x''])]))]))"
    using already_joined_is_recorded_without_call [OF h1 h2 h3 h4 h5]
    by (simp add: empty_results_def)
  show ?thesis using h1 h2 h3 c by blast
qed

subsection \<open>Aliases\<close>





subsection \<open>Local rooms\<close>

lemma py_eq_JStr:
  "py_eq t (JStr a) = (t = JStr a)"
  by (cases t) auto

lemma derive_state_last:
  assumes "derive_state st (n0, t0, i0) = Inr (name, topic, initial_state)"
  shows "(let names = filter (\<lambda>ev. dict_get ev ''type'' JNull = JStr ''m.room.name'') st
          in if names = [] then name = n0
             else py_get (content_of (last names)) ''name'' JNull = Inr name)
       \<and> (let topics = filter (\<lambda>ev. dict_get ev ''type'' JNull = JStr ''m.room.topic'') st
          in if topics = [] then topic = t0
             else py_get (content_of (last topics)) ''topic'' JNull = Inr topic)"
  using assms
proof (induction st arbitrary: n0 t0 i0)
  case Nil
  then show ?case by simp
next
  case (Cons ev evs)
  let ?t = "dict_get ev ''type'' JNull"
  show ?case
  proof (cases "?t = JStr ''m.room.name''")
    case True
    then obtain n where n: "py_get (content_of ev) ''name'' JNull = Inr n"
      and rest: "derive_state evs (n, t0, i0) = Inr (name, topic, initial_state)"
      using Cons.prems by (auto simp: py_eq_JStr Let_def split: sum.splits)
    from Cons.IH [OF rest] True n show ?thesis
      by (auto simp: Let_def)
  next
    case False
    note not_name = False
    show ?thesis
    proof (cases "?t = JStr ''m.room.topic''")
      case True
      then obtain tp where tp: "py_get (content_of ev) ''topic'' JNull = Inr tp"
        and rest: "derive_state evs (n0, tp, i0) = Inr (name, topic, initial_state)"
        using Cons.prems not_name by (auto simp: py_eq_JStr Let_def split: sum.splits)
      from Cons.IH [OF rest] True tp show ?thesis
        by (auto simp: Let_def)
    next
      case False
      then obtain i1 where rest: "derive_state evs (n0, t0, i1) = Inr (name, topic, initial_state)"
        using Cons.prems not_name
        by (auto simp: py_eq_JStr Let_def split: sum.splits bool.splits)
      from Cons.IH [OF rest] False not_name show ?thesis
        by (auto simp: Let_def)
    qed
  qed
qed

lemma create_room_body_name:
  "map_of (create_room_body preset invite name topic room_version initial_state) ''name''
     = (if truthy name then Some name else None)"
  "map_of (create_room_body preset invite name topic room_version initial_state) ''topic''
     = (if truthy topic then Some topic else None)"
  by (simp_all add: create_room_body_def)

text \<open>
  C9, as stated, fails: with two \<^verbatim>\<open>m.room.name\<close> events in the snapshot the name comes
  from the second one, not from the first.
\<close>

theorem derive_state_takes_second_name:
  "derive_state two_names (JNull, JNull, []) = Inr (JStr ''Other'', JNull, [])"
  by (simp add: two_names_def dict_get_def content_of_def)

text \<open>
  C9, amended. For every room of the local-create list whose state snapshot is read
  without an exception, the name is the \<^verbatim>\<open>name\<close> field of the content of the last
  \<^verbatim>\<open>m.room.name\<close> event of the snapshot and the topic is the \<^verbatim>\<open>topic\<close> field of the
  content of the last \<^verbatim>\<open>m.room.topic\<close> event; without such an event the value is
  \<^verbatim>\<open>None\<close>. The request to create the room carries the name (the topic) when the value
  is true in Python's sense and has no such field otherwise.
\<close>

theorem derive_state_last_occurrence:
  assumes "derive_state st (JNull, JNull, []) = Inr (name, topic, initial_state)"
  shows "(let names = filter (\<lambda>ev. dict_get ev ''type'' JNull = JStr ''m.room.name'') st
          in if names = [] then name = JNull
             else py_get (content_of (last names)) ''name'' JNull = Inr name)
       \<and> (let topics = filter (\<lambda>ev. dict_get ev ''type'' JNull = JStr ''m.room.topic'') st
          in if topics = [] then topic = JNull
             else py_get (content_of (last topics)) ''topic'' JNull = Inr topic)
       \<and> map_of (create_room_body preset invite name topic room_version initial) ''name''
           = (if truthy name then Some name else None)
       \<and> map_of (create_room_body preset invite name topic room_version initial) ''topic''
           = (if truthy topic then Some topic else None)"
  using derive_state_last [OF assms] create_room_body_name by simp

theorem derive_state_last_occurrence_witness:
  "derive_state two_names (JNull, JNull, []) = Inr (JStr ''Other'', JNull, [])
   \<and> last (filter (\<lambda>ev. dict_get ev ''type'' JNull = JStr ''m.room.name'') two_names)
       = [(''type'', JStr ''m.room.name''), (''state_key'', JStr ''x''),
          (''content'', JObj [(''name'', JStr ''Other'')])]
   \<and> map_of (create_room_body ''private_chat'' JNull (JStr ''Other'') JNull JNull JNull) ''name''
       = Some (JStr ''Other'')
   \<and> map_of (create_room_body ''private_chat'' JNull (JStr ''Other'') JNull JNull JNull) ''topic''
       = None"
proof -
  have h: "derive_state two_names (JNull, JNull, []) = Inr (JStr ''Other'', JNull, [])"
    by (simp add: two_names_def dict_get_def content_of_def)
  have l: "last (filter (\<lambda>ev. dict_get ev ''type'' JNull = JStr ''m.room.name'') two_names)
       = [(''type'', JStr ''m.room.name''), (''state_key'', JStr ''x''),
          (''content'', JObj [(''name'', JStr ''Other'')])]"
    by (simp add: two_names_def dict_get_def)
  from derive_state_last_occurrence [OF h, of "''private_chat''" JNull JNull JNull]
  have "map_of (create_room_body ''private_chat'' JNull (JStr ''Other'') JNull JNull JNull) ''name''
       = Some (JStr ''Other'')
     \<and> map_of (create_room_body ''private_chat'' JNull (JStr ''Other'') JNull JNull JNull) ''topic''
       = None"
    by simp
  with h l show ?thesis by blast
qed

text \<open>The request that creates a local room carries exactly what was derived.\<close>

lemma create_one_sends_derived:
  assumes "create_one tr b server_name False vm rid (res, s) = Inr (res', s')"
  shows "\<exists>st name topic initial_state preset invite room_version initial answer.
           sdict_lookup (room_state b) rid = Inr st
         \<and> derive_state (case st of None \<Rightarrow> [] | Some evs \<Rightarrow> evs) (JNull, JNull, [])
             = Inr (name, topic, initial_state)
         \<and> snd s' = snd s @
             [Call (CreateRoom (create_room_body preset invite name topic room_version initial))
                answer]"
  using assms
  by (auto simp: create_one_def create_room_def do_request_def Let_def
           split: sum.splits prod.splits if_splits; blast)

section \<open>The inventory collector\<close>

subsection \<open>Guests\<close>

text \<open>
  On a page of user records the loop body is run on exactly the records that are not
  flagged as guests, in their order.
\<close>

lemma yield_users_filter:
  "yield_users body (map JObj us) s
     = foreach body (map JObj (filter (\<lambda>u. \<not> truthy (dict_get u ''is_guest'' JNull)) us)) s"
  by (induction us arbitrary: s) (auto split: sum.splits)







lemma demo_users:
  "list_users demo_source (export_user demo_source) ([], ())
     = Some (Inr ([user_record [(''name'', JStr ''@alice:x''), (''is_guest'', JBool False)] (JArr [])], ()))"
  unfolding list_users_def
  by (subst list_users_from.simps)
     (simp add: users_page_def demo_source_def dict_get_def export_user_def get_user_details_def)


subsection \<open>Aliases and rooms\<close>

lemma jdict_set_member:
  "(a, b) \<in> set (jdict_set d k v) \<Longrightarrow> b = v \<or> b \<in> snd ` set d"
  by (induction d) (force split: if_splits)+

lemma jdict_store_values:
  assumes "jdict_store d k v = Inr d'"
  shows "snd ` set d' \<subseteq> insert v (snd ` set d)"
proof
  fix x
  assume "x \<in> snd ` set d'"
  then obtain a where "(a, x) \<in> set d'" by force
  moreover from assms have "d' = jdict_set d k v"
    by (auto simp: jdict_store_def split: if_splits)
  ultimately have "(a, x) \<in> set (jdict_set d k v)" by simp
  from jdict_set_member [OF this] show "x \<in> insert v (snd ` set d)" by auto
qed

lemma server_aliases_values:
  "server_aliases sn rid as als = Inr als' \<Longrightarrow> snd ` set als' \<subseteq> insert rid (snd ` set als)"
proof (induction as arbitrary: als)
  case Nil
  then show ?case by auto
next
  case (Cons a as)
  show ?case
  proof (cases "\<exists>server. sn = Some server \<and> server \<noteq> [] \<and> py_endswith a ('':'' @ server) = Inr True")
    case True
    then obtain als1 where s: "jdict_store als a rid = Inr als1"
      and r: "server_aliases sn rid as als1 = Inr als'"
      using Cons.prems by (auto split: sum.splits)
    from jdict_store_values [OF s] Cons.IH [OF r] show ?thesis by blast
  next
    case False
    then have "server_aliases sn rid as als = Inr als'"
      using Cons.prems by (auto split: option.splits sum.splits if_splits bool.splits)
    from Cons.IH [OF this] show ?thesis .
  qed
qed

lemma aliases_event_values:
  assumes "aliases_event sn rid ev t als = Inr als'"
  shows "snd ` set als' \<subseteq> insert rid (snd ` set als)"
proof (cases "py_eq t (JStr ''m.room.aliases'')")
  case False
  with assms show ?thesis by (auto simp: aliases_event_def)
next
  case True
  with assms obtain as where "server_aliases sn rid as als = Inr als'"
    by (auto simp: aliases_event_def split: sum.splits)
  from server_aliases_values [OF this] show ?thesis .
qed

lemma canonical_alias_event_values:
  assumes "canonical_alias_event sn rid ev t als = Inr als'"
  shows "snd ` set als' \<subseteq> insert rid (snd ` set als)"
proof (cases "py_eq t (JStr ''m.room.canonical_alias'')")
  case False
  with assms show ?thesis by (auto simp: canonical_alias_event_def)
next
  case True
  obtain c where c: "py_get ev ''content'' (JObj []) = Inr c"
    using assms True
    by (cases "py_get ev ''content'' (JObj [])") (simp_all add: canonical_alias_event_def)
  obtain a where a: "py_get (if truthy c then c else JObj []) ''alias'' JNull = Inr a"
    using assms True c
    by (cases "py_get (if truthy c then c else JObj []) ''alias'' JNull")
       (simp_all add: canonical_alias_event_def)
  show ?thesis
  proof (cases "truthy a")
    case False
    with assms True c a have "als' = als" by (simp add: canonical_alias_event_def)
    then show ?thesis by auto
  next
    case ta: True
    show ?thesis
    proof (cases sn)
      case None
      with assms True c a ta have "jdict_store als a rid = Inr als'"
        by (simp add: canonical_alias_event_def)
      from jdict_store_values [OF this] show ?thesis .
    next
      case (Some server)
      show ?thesis
      proof (cases "py_endswith a ('':'' @ server)")
        case (Inl e)
        with assms True c a ta Some show ?thesis by (simp add: canonical_alias_event_def)
      next
        case (Inr b)
        show ?thesis
        proof (cases b)
          case True
          with assms \<open>py_eq t (JStr ''m.room.canonical_alias'')\<close> c a ta Some Inr
          have "jdict_store als a rid = Inr als'"
            by (simp add: canonical_alias_event_def)
          from jdict_store_values [OF this] show ?thesis .
        next
          case False
          with assms \<open>py_eq t (JStr ''m.room.canonical_alias'')\<close> c a ta Some Inr
          have "als' = als" by (simp add: canonical_alias_event_def)
          then show ?thesis by auto
        qed
      qed
    qed
  qed
qed

lemma derive_aliases_values:
  assumes "derive_aliases sn rid ev als = Inr als'"
  shows "snd ` set als' \<subseteq> insert rid (snd ` set als)"
proof -
  obtain t where t: "py_get ev ''type'' JNull = Inr t"
    using assms by (cases "py_get ev ''type'' JNull") (simp_all add: derive_aliases_def)
  obtain als1 where a1: "aliases_event sn rid ev t als = Inr als1"
    using assms t by (cases "aliases_event sn rid ev t als") (simp_all add: derive_aliases_def)
  from assms t a1 have a2: "canonical_alias_event sn rid ev t als1 = Inr als'"
    by (simp add: derive_aliases_def)
  from aliases_event_values [OF a1] canonical_alias_event_values [OF a2]
  show ?thesis by blast
qed

lemma foreach_derive_aliases_values:
  "foreach (derive_aliases sn rid) evs als = Inr als'
     \<Longrightarrow> snd ` set als' \<subseteq> insert rid (snd ` set als)"
proof (induction evs arbitrary: als)
  case Nil
  then show ?case by auto
next
  case (Cons ev evs)
  then obtain als1 where d: "derive_aliases sn rid ev als = Inr als1"
    and r: "foreach (derive_aliases sn rid) evs als1 = Inr als'"
    by (auto split: sum.splits)
  from derive_aliases_values [OF d] Cons.IH [OF r] show ?case by blast
qed

lemma collect_room_aliases:
  assumes "collect_room src cfg rb (docs, w) = Inr (docs', w')"
  shows "snd ` set (c_aliases docs')
           \<subseteq> insert (dict_get rb ''room_id'' JNull) (snd ` set (c_aliases docs))
       \<and> c_rooms_basic docs' = c_rooms_basic docs"
proof (cases "truthy (dict_get rb ''room_id'' JNull)")
  case False
  with assms show ?thesis by (auto simp: collect_room_def)
next
  case True
  let ?rid = "dict_get rb ''room_id'' JNull"
  obtain fetched w1 where fs: "api_room_state src ?rid w = (fetched, w1)"
    by (cases "api_room_state src ?rid w") auto
  let ?st = "case fetched of Inl e \<Rightarrow> JArr [JObj [(''error'', JStr (str_exn e))]] | Inr v \<Rightarrow> v"
  have 1:
    "(case py_iter ?st of
        Inl e \<Rightarrow> Inl e
      | Inr evs \<Rightarrow>
         (case filter_important evs of
            Inl e \<Rightarrow> Inl e
          | Inr filtered \<Rightarrow>
             (case jdict_store (c_room_state docs) ?rid filtered of
                Inl e \<Rightarrow> Inl e
              | Inr room_state' \<Rightarrow>
                 (case foreach (derive_aliases (cfg_server_name cfg) ?rid) evs (c_aliases docs) of
                    Inl e \<Rightarrow> Inl e
                  | Inr aliases' \<Rightarrow>
                     (case members_entry src ?rid w1 of (entry, w2) \<Rightarrow>
                        Inr (docs\<lparr>c_room_state := room_state',
                                  c_aliases := aliases',
                                  c_memberships := jdict_set (c_memberships docs) ?rid entry\<rparr>,
                             w2)))))) = Inr (docs', w')"
    using assms True fs unfolding collect_room_def Let_def fst_conv snd_conv by simp
  obtain evs where evs: "py_iter ?st = Inr evs"
    using 1 by (cases "py_iter ?st") simp_all
  obtain filtered where fl: "filter_important evs = Inr filtered"
    using 1 evs by (cases "filter_important evs") simp_all
  obtain rs' where rs': "jdict_store (c_room_state docs) ?rid filtered = Inr rs'"
    using 1 evs fl by (cases "jdict_store (c_room_state docs) ?rid filtered") simp_all
  obtain als' where f: "foreach (derive_aliases (cfg_server_name cfg) ?rid) evs (c_aliases docs) = Inr als'"
    using 1 evs fl rs'
    by (cases "foreach (derive_aliases (cfg_server_name cfg) ?rid) evs (c_aliases docs)") simp_all
  obtain entry w2 where m: "members_entry src ?rid w1 = (entry, w2)"
    by (cases "members_entry src ?rid w1") auto
  from 1 evs fl rs' f m have d: "c_aliases docs' = als'" "c_rooms_basic docs' = c_rooms_basic docs"
    by auto
  from foreach_derive_aliases_values [OF f] d show ?thesis by simp
qed

lemma foreach_collect_room_aliases:
  "foreach (collect_room src cfg) rbs (docs, w) = Inr (docs', w')
     \<Longrightarrow> snd ` set (c_aliases docs')
           \<subseteq> (\<lambda>r. dict_get r ''room_id'' JNull) ` set rbs \<union> snd ` set (c_aliases docs)
       \<and> c_rooms_basic docs' = c_rooms_basic docs"
proof (induction rbs arbitrary: docs w)
  case Nil
  then show ?case by auto
next
  case (Cons rb rbs)
  obtain docs1 w1 where c: "collect_room src cfg rb (docs, w) = Inr (docs1, w1)"
    using Cons.prems by (cases "collect_room src cfg rb (docs, w)") auto
  with Cons.prems have r: "foreach (collect_room src cfg) rbs (docs1, w1) = Inr (docs', w')"
    by simp
  let ?f = "\<lambda>r. dict_get r ''room_id'' JNull"
  from collect_room_aliases [OF c]
  have c1: "snd ` set (c_aliases docs1) \<subseteq> insert (?f rb) (snd ` set (c_aliases docs))"
    and c2: "c_rooms_basic docs1 = c_rooms_basic docs"
    by simp_all
  from Cons.IH [OF r]
  have r1: "snd ` set (c_aliases docs') \<subseteq> ?f ` set rbs \<union> snd ` set (c_aliases docs1)"
    and r2: "c_rooms_basic docs' = c_rooms_basic docs1"
    by simp_all
  have "?f ` set rbs \<union> snd ` set (c_aliases docs1)
          \<subseteq> ?f ` set (rb # rbs) \<union> snd ` set (c_aliases docs)"
    using c1 by auto
  with r1 have "snd ` set (c_aliases docs') \<subseteq> ?f ` set (rb # rbs) \<union> snd ` set (c_aliases docs)"
    by (rule subset_trans)
  with c2 r2 show ?case by simp
qed

lemma export_all_aliases:
  assumes "export_all src parse cfg w = Some (Inr (docs, w'))"
  shows "\<forall>(a, rid) \<in> set (c_aliases docs).
           \<exists>r \<in> set (c_rooms_basic docs). dict_get r ''room_id'' JNull = rid"
proof -
  obtain server_ver w0 where sv: "server_version src w = (server_ver, w0)"
    by (cases "server_version src w") auto
  obtain users_doc w1 where
    u: "list_users src (export_user src) ([], w0) = Some (Inr (users_doc, w1))"
    using assms sv
    by (cases "list_users src (export_user src) ([], w0)")
       (auto simp: export_all_def split: sum.splits)
  obtain rooms_basic w2 where
    r: "list_rooms src parse export_room ([], w1) = Some (Inr (rooms_basic, w2))"
    using assms sv u
    by (cases "list_rooms src parse export_room ([], w1)")
       (auto simp: export_all_def split: sum.splits)
  from assms sv u r have
    f: "foreach (collect_room src cfg) rooms_basic
          (\<lparr>c_server_ver = server_ver, c_users = users_doc, c_rooms_basic = rooms_basic,
            c_room_state = [], c_memberships = [], c_aliases = []\<rparr>, w2) = Inr (docs, w')"
    by (simp add: export_all_def)
  from foreach_collect_room_aliases [OF f]
  have s: "snd ` set (c_aliases docs) \<subseteq> (\<lambda>r. dict_get r ''room_id'' JNull) ` set rooms_basic"
    and e: "c_rooms_basic docs = rooms_basic"
    by simp_all
  show ?thesis
  proof (clarify)
    fix a rid
    assume "(a, rid) \<in> set (c_aliases docs)"
    then have "rid \<in> snd ` set (c_aliases docs)" by force
    with s have "rid \<in> (\<lambda>r. dict_get r ''room_id'' JNull) ` set rooms_basic" by (rule subsetD)
    with e show "\<exists>r \<in> set (c_rooms_basic docs). dict_get r ''room_id'' JNull = rid" by auto
  qed
qed

text \<open>
  C5. In every collection the exporter completes with no \<^verbatim>\<open>server_name\<close> configured,
  each alias of the aliases document maps to a room identifier that is the \<^verbatim>\<open>room_id\<close>
  of a record of the rooms document.
\<close>

theorem aliases_point_to_exported_rooms:
  assumes "cfg_server_name cfg = None"
    and "export_all src parse cfg w = Some (Inr (docs, w'))"
  shows "\<forall>(a, rid) \<in> set (c_aliases docs).
           \<exists>r \<in> set (c_rooms_basic docs). dict_get r ''room_id'' JNull = rid"
  using assms(2) by (rule export_all_aliases)

lemma demo_rooms:
  "list_rooms demo_source parse export_room ([], ()) = Some (Inr ([room_a], ()))"
  unfolding list_rooms_def
  by (subst list_rooms_from.simps)
     (simp add: rooms_page_def demo_source_def dict_get_def export_room_def room_a_def)

lemma demo_collect_room:
  "collect_room demo_source \<lparr>cfg_server_name = None\<rparr> room_a (docs, ())
     = Inr (docs\<lparr>c_room_state :=
                    jdict_set (c_room_state docs) (JStr ''!a:x'')
                      [JObj [(''type'', JStr ''m.room.canonical_alias''),
                             (''content'', JObj [(''alias'', JStr ''#town:x'')])]],
                 c_aliases := jdict_set (c_aliases docs) (JStr ''#town:x'') (JStr ''!a:x''),
                 c_memberships := jdict_set (c_memberships docs) (JStr ''!a:x'') []\<rparr>, ())"
  by (simp add: collect_room_def room_a_def dict_get_def api_room_state_def demo_source_def
        py_in_def important_state_types_def jdict_store_def derive_aliases_def
        aliases_event_def canonical_alias_event_def
        members_entry_def api_room_members_def Let_def)

lemma demo_export:
  "export_all demo_source (\<lambda>s. None) \<lparr>cfg_server_name = None\<rparr> ()
     = Some (Inr (\<lparr>c_server_ver = JObj [(''server_version'', JStr ''1.99'')],
                   c_users = [user_record [(''name'', JStr ''@alice:x''), (''is_guest'', JBool False)] (JArr [])],
                   c_rooms_basic = [room_a],
                   c_room_state =
                     [(JStr ''!a:x'',
                       [JObj [(''type'', JStr ''m.room.canonical_alias''),
                              (''content'', JObj [(''alias'', JStr ''#town:x'')])]])],
                   c_memberships = [(JStr ''!a:x'', [])],
                   c_aliases = [(JStr ''#town:x'', JStr ''!a:x'')]\<rparr>, ()))"
  by (simp add: export_all_def demo_users demo_rooms demo_collect_room server_version_def
        demo_source_def)

theorem aliases_point_to_exported_rooms_witness:
  "cfg_server_name \<lparr>cfg_server_name = None\<rparr> = None
   \<and> export_all demo_source (\<lambda>s. None) \<lparr>cfg_server_name = None\<rparr> ()
     = Some (Inr (\<lparr>c_server_ver = JObj [(''server_version'', JStr ''1.99'')],
                   c_users = [user_record [(''name'', JStr ''@alice:x''), (''is_guest'', JBool False)] (JArr [])],
                   c_rooms_basic = [room_a],
                   c_room_state =
                     [(JStr ''!a:x'',
                       [JObj [(''type'', JStr ''m.room.canonical_alias''),
                              (''content'', JObj [(''alias'', JStr ''#town:x'')])]])],
                   c_memberships = [(JStr ''!a:x'', [])],
                   c_aliases = [(JStr ''#town:x'', JStr ''!a:x'')]\<rparr>, ()))
   \<and> dict_get room_a ''room_id'' JNull = JStr ''!a:x''"
proof -
  have h: "cfg_server_name \<lparr>cfg_server_name = None\<rparr> = None" by simp
  have r: "dict_get room_a ''room_id'' JNull = JStr ''!a:x''"
    by (simp add: room_a_def dict_get_def)
  from aliases_point_to_exported_rooms [OF h demo_export] h demo_export r
  show ?thesis by blast
qed

subsection \<open>Rooms that cannot be fetched\<close>

text \<open>
  When the state of a room cannot be fetched, the marker that stands for the state has
  no \<^verbatim>\<open>type\<close>, so the filter for the important state types removes it: the entry of the
  room in the room-state document is the empty list.
\<close>

lemma filter_important_error_marker:
  "filter_important [JObj [(''error'', JStr msg)]] = Inr []"
  by (simp add: dict_get_def py_in_def important_state_types_def)

lemma derive_aliases_error_marker:
  "derive_aliases sn rid (JObj [(''error'', JStr msg)]) als = Inr als"
  by (simp add: derive_aliases_def aliases_event_def canonical_alias_event_def dict_get_def)

lemma collect_room_state_fetch_fails:
  assumes "truthy (dict_get rb ''room_id'' JNull)" and "hashable (dict_get rb ''room_id'' JNull)"
    and "api_room_state src (dict_get rb ''room_id'' JNull) w = (Inl e, w1)"
  shows "\<exists>entry w2.
           collect_room src cfg rb (docs, w)
             = Inr (docs\<lparr>c_room_state := jdict_set (c_room_state docs) (dict_get rb ''room_id'' JNull) [],
                         c_aliases := c_aliases docs,
                         c_memberships := jdict_set (c_memberships docs) (dict_get rb ''room_id'' JNull) entry\<rparr>,
                    w2)"
proof -
  have t: "dict_get [(''error'', JStr m)] ''type'' JNull = JNull" for m
    by (simp add: dict_get_def)
  obtain entry w2 where m: "members_entry src (dict_get rb ''room_id'' JNull) w1 = (entry, w2)"
    by (cases "members_entry src (dict_get rb ''room_id'' JNull) w1") auto
  from assms m have "collect_room src cfg rb (docs, w)
             = Inr (docs\<lparr>c_room_state := jdict_set (c_room_state docs) (dict_get rb ''room_id'' JNull) [],
                         c_aliases := c_aliases docs,
                         c_memberships := jdict_set (c_memberships docs) (dict_get rb ''room_id'' JNull) entry\<rparr>,
                    w2)"
    by (simp add: collect_room_def Let_def t py_in_def important_state_types_def
          derive_aliases_def aliases_event_def canonical_alias_event_def jdict_store_def)
  then show ?thesis by blast
qed

lemma members_entry_fetch_fails:
  "api_room_members src rid w = (Inl e, w') \<Longrightarrow>
     members_entry src rid w = ([(JStr ''_error'', JStr (str_exn e))], w')"
  by (simp add: members_entry_def)

text \<open>
  C6. For a room whose state fetch and membership fetch both raise, the collection goes
  on, and the memberships document gets the error marker for the room; the room-state
  document gets the empty list for it, not a marker.
\<close>

theorem failed_state_fetch_leaves_empty_entry:
  "export_all broken_room_source (\<lambda>s. None) \<lparr>cfg_server_name = None\<rparr> ()
     = Some (Inr (\<lparr>c_server_ver = JObj [(''server_version'', JStr ''1.99'')],
                   c_users = [user_record [(''name'', JStr ''@alice:x''), (''is_guest'', JBool False)] (JArr [])],
                   c_rooms_basic = [room_a],
                   c_room_state = [(JStr ''!a:x'', [])],
                   c_memberships = [(JStr ''!a:x'', [(JStr ''_error'', JStr ''HTTP 500: boom'')])],
                   c_aliases = []\<rparr>, ()))"
proof -
  have u: "list_users broken_room_source (export_user broken_room_source) ([], ())
     = Some (Inr ([user_record [(''name'', JStr ''@alice:x''), (''is_guest'', JBool False)] (JArr [])], ()))"
    unfolding list_users_def
    by (subst list_users_from.simps)
       (simp add: users_page_def broken_room_source_def demo_source_def dict_get_def
          export_user_def get_user_details_def)
  have r: "list_rooms broken_room_source (\<lambda>s. None) export_room ([], ()) = Some (Inr ([room_a], ()))"
    unfolding list_rooms_def
    by (subst list_rooms_from.simps)
       (simp add: rooms_page_def broken_room_source_def demo_source_def dict_get_def
          export_room_def room_a_def)
  have c: "collect_room broken_room_source \<lparr>cfg_server_name = None\<rparr> room_a
             (\<lparr>c_server_ver = JObj [(''server_version'', JStr ''1.99'')],
               c_users = [user_record [(''name'', JStr ''@alice:x''), (''is_guest'', JBool False)] (JArr [])],
               c_rooms_basic = [room_a],
               c_room_state = [], c_memberships = [], c_aliases = []\<rparr>, ())
     = Inr (\<lparr>c_server_ver = JObj [(''server_version'', JStr ''1.99'')],
             c_users = [user_record [(''name'', JStr ''@alice:x''), (''is_guest'', JBool False)] (JArr [])],
             c_rooms_basic = [room_a],
             c_room_state = [(JStr ''!a:x'', [])],
             c_memberships = [(JStr ''!a:x'', [(JStr ''_error'', JStr ''HTTP 500: boom'')])],
             c_aliases = []\<rparr>, ())"
    by (simp add: collect_room_def room_a_def dict_get_def api_room_state_def
          broken_room_source_def py_in_def important_state_types_def jdict_store_def
          derive_aliases_def aliases_event_def canonical_alias_event_def
          members_entry_def api_room_members_def Let_def)
  show ?thesis
    by (simp add: export_all_def u r c server_version_def broken_room_source_def demo_source_def)
qed

subsection \<open>Pagination\<close>

text \<open>
  The user listing ends with the page whose \<^verbatim>\<open>next_token\<close> is missing, \<^verbatim>\<open>null\<close> or equal
  to the token the page was asked with, and goes on otherwise.
\<close>

lemma users_page_stops_iff:
  assumes "users_page src limit body from_tok s = Inr (tok, s')"
  shows "\<exists>data w. src (snd s) (UsersPage from_tok limit) = (Inr (JObj data), w)
           \<and> tok = (if dict_get data ''next_token'' JNull = JNull
                        \<or> py_eq (dict_get data ''next_token'' JNull) from_tok
                     then None else Some (dict_get data ''next_token'' JNull))"
proof -
  from assms obtain v w where s: "src (snd s) (UsersPage from_tok limit) = (Inr v, w)"
    by (auto simp: users_page_def split: prod.splits sum.splits)
  with assms obtain data where v: "v = JObj data"
    by (cases v) (auto simp: users_page_def)
  from assms s v show ?thesis
    by (auto simp: users_page_def split: sum.splits if_splits)
qed

lemma list_users_from_last_page:
  "users_page src limit body from_tok s = Inr (None, s')
     \<Longrightarrow> list_users_from src limit body from_tok s = Some (Inr s')"
  by (subst list_users_from.simps) simp

lemma list_users_from_error:
  "users_page src limit body from_tok s = Inl e
     \<Longrightarrow> list_users_from src limit body from_tok s = Some (Inl e)"
  by (subst list_users_from.simps) simp

text \<open>
  A source that gives the same token \<open>t\<close> with every page of users does not keep the
  user listing going: it returns with the second page at the latest.
\<close>

lemma list_users_repeated_token_returns:
  assumes same: "\<And>w tok data w'. src w (UsersPage tok limit) = (Inr (JObj data), w')
                   \<Longrightarrow> dict_get data ''next_token'' JNull = t"
    and refl: "py_eq t t"
  shows "\<exists>r. list_users_from src limit body from_tok s = Some r"
proof (cases "users_page src limit body from_tok s")
  case (Inl e)
  then show ?thesis using list_users_from_error by blast
next
  case (Inr p)
  obtain tok s1 where p: "p = (tok, s1)" by (cases p)
  show ?thesis
  proof (cases tok)
    case None
    with Inr p show ?thesis using list_users_from_last_page by blast
  next
    case (Some next_tok)
    from users_page_stops_iff [of src limit body from_tok s tok s1] Inr p Some same
    have nt: "next_tok = t"
      by (auto split: if_splits)
    have first: "list_users_from src limit body from_tok s = list_users_from src limit body t s1"
      using Inr p Some nt by (subst list_users_from.simps) simp
    show ?thesis
    proof (cases "users_page src limit body t s1")
      case (Inl e)
      then show ?thesis using first list_users_from_error by metis
    next
      case (Inr q)
      obtain tok2 s2 where q: "q = (tok2, s2)" by (cases q)
      from users_page_stops_iff [of src limit body t s1 tok2 s2] Inr q same refl
      have "tok2 = None" by auto
      with Inr q have "list_users_from src limit body t s1 = Some (Inr s2)"
        using list_users_from_last_page by blast
      with first show ?thesis by simp
    qed
  qed
qed

text \<open>
  The room listing ends with the page whose token (\<^verbatim>\<open>next_batch\<close>, or else
  \<^verbatim>\<open>next_token\<close>) is missing or false in Python's sense, or cannot be read as a number;
  any other token is the next one, also when it is the token of the page before.
\<close>

lemma rooms_page_token:
  assumes "rooms_page src parse limit body from_tok s = Inr (tok, s')"
  shows "\<exists>data w next_tok.
           src (snd s) (RoomsPage from_tok limit) = (Inr (JObj data), w)
         \<and> next_tok = (if truthy (dict_get data ''next_batch'' JNull)
                        then dict_get data ''next_batch'' JNull
                        else dict_get data ''next_token'' JNull)
         \<and> tok = (if \<not> truthy next_tok then None
                   else case py_int parse next_tok of Inl e \<Rightarrow> None | Inr i \<Rightarrow> Some i)"
proof -
  from assms obtain v w where s: "src (snd s) (RoomsPage from_tok limit) = (Inr v, w)"
    by (auto simp: rooms_page_def split: prod.splits sum.splits)
  with assms obtain data where v: "v = JObj data"
    by (cases v) (auto simp: rooms_page_def)
  from assms s v show ?thesis
    by (auto simp: rooms_page_def Let_def split: sum.splits if_splits)
qed

lemma list_rooms_from_last_page:
  "rooms_page src parse limit body from_tok s = Inr (None, s')
     \<Longrightarrow> list_rooms_from src parse limit body from_tok s = Some (Inr s')"
  by (subst list_rooms_from.simps) simp

lemma stuck_rooms_page:
  "rooms_page stuck_rooms_source parse limit export_room from_tok (a, ())
     = Inr (Some 5, (a @ [room_a], ()))"
  by (simp add: rooms_page_def stuck_rooms_source_def dict_get_def export_room_def room_a_def)

lemma stuck_rooms_never_returns:
  assumes "list_rooms_from src parse limit body from_tok s = Some y"
  shows "\<not> (src = stuck_rooms_source \<and> body = export_room)"
proof -
  let ?P = "\<lambda>(src :: unit source) (parse :: string \<Rightarrow> int option) (limit :: int)
              (body :: json \<Rightarrow> dict list \<times> unit \<Rightarrow> exn + dict list \<times> unit)
              (from_tok :: int) (s :: dict list \<times> unit) (y :: exn + dict list \<times> unit).
              \<not> (src = stuck_rooms_source \<and> body = export_room)"
  show ?thesis
  proof (rule list_rooms_from.raw_induct [where P = ?P, OF _ assms])
    fix f src parse limit body from_tok s y
    assume ih: "\<And>a b c d e g y. f a b c d e g = Some y \<Longrightarrow> ?P a b c d e g y"
      and eq: "(case rooms_page src parse limit body from_tok s of
                  Inl e \<Rightarrow> Some (Inl e)
                | Inr (None, s') \<Rightarrow> Some (Inr s')
                | Inr (Some next_tok, s') \<Rightarrow> f src parse limit body next_tok s') = Some y"
    show "?P src parse limit body from_tok s y"
    proof
      assume a: "src = stuck_rooms_source \<and> body = export_room"
      obtain acc where s: "s = (acc, ())" by (cases s) auto
      from eq a s have "f stuck_rooms_source parse limit export_room 5 (acc @ [room_a], ()) = Some y"
        by (simp add: stuck_rooms_page)
      from ih [OF this] show False by simp
    qed
  qed
qed

text \<open>
  C8. A source that gives the same token with every page of rooms keeps the room
  listing going for ever: the listing, and with it the whole collection, never returns.
\<close>

theorem list_rooms_repeated_token_never_returns:
  "list_rooms stuck_rooms_source parse export_room ([], ()) = None
   \<and> export_all stuck_rooms_source parse cfg () = None"
proof -
  have n: "list_rooms_from stuck_rooms_source parse 500 export_room 0 s = None" for s
    using stuck_rooms_never_returns [of stuck_rooms_source parse 500 export_room 0 s]
    by (cases "list_rooms_from stuck_rooms_source parse 500 export_room 0 s") auto
  have u: "list_users stuck_rooms_source (export_user stuck_rooms_source) ([], ())
     = Some (Inr ([user_record [(''name'', JStr ''@alice:x''), (''is_guest'', JBool False)] (JArr [])], ()))"
    unfolding list_users_def
    by (subst list_users_from.simps)
       (simp add: users_page_def stuck_rooms_source_def demo_source_def dict_get_def
          export_user_def get_user_details_def)
  show ?thesis
    by (simp add: export_all_def list_rooms_def n u server_version_def split: prod.splits)
qed

end
